theory Spec2Isabelle
  imports Main "HOL-Library.Sublist"
begin

section \<open>Python string operations used by the service\<close>

text \<open>
  Python \<open>str\<close> values are modelled as \<open>string\<close> (lists of 8-bit characters), so the
  model covers the code points below 256. \<open>is_space\<close> is \<open>str.isspace\<close> on that range,
  \<open>strip\<close> is \<open>str.strip()\<close> without arguments, \<open>lower\<close> is \<open>str.lower()\<close>.
\<close>

definition is_space :: "char \<Rightarrow> bool" where
  "is_space c = (of_char c \<in> {9, 10, 11, 12, 13, 28, 29, 30, 31, 32, 133, 160 :: nat})"

definition strip :: "string \<Rightarrow> string" where
  "strip s = rev (dropWhile is_space (rev (dropWhile is_space s)))"

text \<open>The letters that \<open>str.lower()\<close> changes below code point 256, and their images.\<close>

definition upper_letters :: string where
  "upper_letters = ''ABCDEFGHIJKLMNOPQRSTUVWXYZ'' @
     [CHR 0xC0, CHR 0xC1, CHR 0xC2, CHR 0xC3, CHR 0xC4, CHR 0xC5, CHR 0xC6, CHR 0xC7,
      CHR 0xC8, CHR 0xC9, CHR 0xCA, CHR 0xCB, CHR 0xCC, CHR 0xCD, CHR 0xCE, CHR 0xCF,
      CHR 0xD0, CHR 0xD1, CHR 0xD2, CHR 0xD3, CHR 0xD4, CHR 0xD5, CHR 0xD6,
      CHR 0xD8, CHR 0xD9, CHR 0xDA, CHR 0xDB, CHR 0xDC, CHR 0xDD, CHR 0xDE]"

definition lower_letters :: string where
  "lower_letters = ''abcdefghijklmnopqrstuvwxyz'' @
     [CHR 0xE0, CHR 0xE1, CHR 0xE2, CHR 0xE3, CHR 0xE4, CHR 0xE5, CHR 0xE6, CHR 0xE7,
      CHR 0xE8, CHR 0xE9, CHR 0xEA, CHR 0xEB, CHR 0xEC, CHR 0xED, CHR 0xEE, CHR 0xEF,
      CHR 0xF0, CHR 0xF1, CHR 0xF2, CHR 0xF3, CHR 0xF4, CHR 0xF5, CHR 0xF6,
      CHR 0xF8, CHR 0xF9, CHR 0xFA, CHR 0xFB, CHR 0xFC, CHR 0xFD, CHR 0xFE]"

definition lower_char :: "char \<Rightarrow> char" where
  "lower_char c = (case map_of (zip upper_letters lower_letters) c of Some d \<Rightarrow> d | None \<Rightarrow> c)"

definition lower :: "string \<Rightarrow> string" where
  "lower s = map lower_char s"

definition startswith :: "string \<Rightarrow> string \<Rightarrow> bool" where
  "startswith s p = (take (length p) s = p)"

definition endswith :: "string \<Rightarrow> string \<Rightarrow> bool" where
  "endswith s p = (length p \<le> length s \<and> drop (length s - length p) s = p)"

text \<open>\<open>contains needle s\<close> is Python's \<open>needle in s\<close> on strings.\<close>

fun contains :: "string \<Rightarrow> string \<Rightarrow> bool" where
  "contains needle [] = (needle = [])"
| "contains needle (c # cs) = (startswith (c # cs) needle \<or> contains needle cs)"

text \<open>\<open>quoted s\<close> is the text \<open>s\<close> between single quotes, as in \<open>f"'{s}'"\<close>.\<close>

definition quoted :: "string \<Rightarrow> string" where
  "quoted s = [CHR 0x27] @ s @ [CHR 0x27]"

text \<open>\<open>blank q\<close> is the test \<open>not q or q.strip() == ""\<close>.\<close>

definition blank :: "string \<Rightarrow> bool" where
  "blank q = (q = [] \<or> strip q = [])"

section \<open>The job ledger (db.py)\<close>

text \<open>
  The table \<open>Analysis\<close>: \<open>id\<close> is the integer primary key (named \<open>id_pk\<close> here, \<open>id\<close> being
  the identity function of HOL), \<open>job_id\<close> is an optional, indexed but not unique column.
  Timestamps are readings of a clock, given as natural numbers.
\<close>

record Analysis =
  id_pk :: nat
  job_id :: "string option"
  filename :: string
  query :: string
  file_path :: string
  status :: string
  analysis_text :: "string option"
  created_at :: nat
  updated_at :: nat

text \<open>The table is the list of its rows in insertion (rowid) order.\<close>

type_synonym table = "Analysis list"

text \<open>The key given to a new row: one more than the largest key in the table.\<close>

definition next_id :: "table \<Rightarrow> nat" where
  "next_id tbl = Suc (foldr max (map id_pk tbl) 0)"

text \<open>
  \<open>save_new\<close> builds the record with the column defaults (\<open>status = "queued"\<close>, no
  analysis text, both timestamps now), adds it, commits and returns the new key together
  with the table. There is no lookup of \<open>job_id\<close> before the insertion.
\<close>

definition save_new ::
  "nat \<Rightarrow> table \<Rightarrow> string \<Rightarrow> string \<Rightarrow> string \<Rightarrow> string \<Rightarrow> nat \<times> table" where
  "save_new now tbl jid fname qry path =
     (let rec = \<lparr> id_pk = next_id tbl, job_id = Some jid, filename = fname, query = qry,
                  file_path = path, status = ''queued'', analysis_text = None,
                  created_at = now, updated_at = now \<rparr>
      in (id_pk rec, tbl @ [rec]))"

text \<open>\<open>select(Analysis).where(Analysis.job_id == job_id)).first()\<close>\<close>

definition get_by_job :: "table \<Rightarrow> string \<Rightarrow> Analysis option" where
  "get_by_job tbl jid = find (\<lambda>r. job_id r = Some jid) tbl"


section \<open>Rendering numbers\<close>

text \<open>\<open>str_nat n\<close> is Python's \<open>str(n)\<close> for a non-negative integer.\<close>

fun str_nat :: "nat \<Rightarrow> string" where
  "str_nat n =
     (if n < 10 then [''0123456789'' ! n]
      else str_nat (n div 10) @ [''0123456789'' ! (n mod 10)])"

declare str_nat.simps [simp del]

section \<open>The environment of the service\<close>

text \<open>
  What the code asks of its surroundings is collected in one record of oracles, so that
  every function of the model is a function of its arguments: the three availability flags
  computed when \<open>main.py\<close> is loaded, the identifier drawn by \<open>uuid.uuid4()\<close>, the clock,
  and the outcome of each call that can raise or that leaves the repository (the file
  system, the imports, the PDF library, the crew, the task queue, the storage engine).
  \<open>import_worker_task\<close> is the exception, if any, that \<open>from worker_task import run_crew\<close>
  raises; \<open>kickoff\<close> is the crew as a function of the query and the path, \<open>Inl\<close> carrying
  the text of the exception it raises; \<open>delay\<close> is \<open>run_crew_task.delay\<close>, \<open>Inl\<close> carrying
  the text of its exception and \<open>Inr\<close> the task id. \<open>update_exec_raises\<close> and
  \<open>update_commit_raises\<close> are the texts of the exceptions, if any, that the storage engine
  raises when \<open>update_result\<close> executes its select and when it commits.
\<close>

type_synonym bytes = "char list"

text \<open>One page of a parsed PDF: the text \<open>extract_text()\<close> returns, or the message of
  the exception it raises.\<close>

datatype page = PageText string | PageError string

text \<open>\<open>PdfReader(file)\<close>: an exception while the structure is read, or the encryption flag
  and the pages.\<close>

datatype pdf = PdfError string | Pdf bool "page list"

text \<open>The exceptions that the outer handlers of \<open>read_data_tool\<close> tell apart.\<close>

datatype os_error = FileNotFoundError | PermissionError | MemoryError | OtherOSError string

text \<open>
  The exceptions that the handlers of the worker task tell apart, each with its message;
  \<open>OtherException\<close> carries the name of the type as well.
\<close>

datatype exn =
    ValueError string
  | ImportError string
  | RuntimeError string
  | OtherException string string

fun str_exn :: "exn \<Rightarrow> string" where
  "str_exn (ValueError m) = m"
| "str_exn (ImportError m) = m"
| "str_exn (RuntimeError m) = m"
| "str_exn (OtherException ty m) = m"

text \<open>What the crew returns: its truth value under \<open>not result\<close> and its \<open>str(result)\<close>.\<close>

record CrewOutput =
  truthy :: bool
  str_result :: string

text \<open>Values of the JSON-like dictionaries that the service stores and returns.\<close>

datatype val = VNull | VStr string | VNat nat | VDict "(string \<times> val) list"

record env =
  has_celery :: bool
  has_db :: bool
  has_ai :: bool
  uuid4 :: string
  clock :: nat
  write_raises :: "string option"
  remove_raises :: bool
  access_R_OK :: "string \<Rightarrow> bool"
  open_raises :: "string \<Rightarrow> os_error option"
  PdfReader :: "bytes \<Rightarrow> pdf"
  import_worker_task :: "exn option"
  import_tools :: "string option"
  import_db :: bool
  kickoff :: "string \<Rightarrow> string \<Rightarrow> string + CrewOutput"
  delay :: "string + string"
  save_new_raises :: "string option"
  get_by_job_raises :: "string option"
  update_exec_raises :: "string option"
  update_commit_raises :: "string option"
  AsyncResult_raises :: "string option"
  py_str :: "val \<Rightarrow> string"

section \<open>The ledger update (db.py)\<close>

text \<open>
  \<open>update_result\<close> selects the first row of the job; when there is one it writes the three
  columns back to the row with that primary key and commits, otherwise it does nothing.
  The function has no handler: an exception that the storage engine raises while the select
  is executed, or while the update is committed, leaves the function (\<open>Inl\<close> carries its
  text) and the table stays as it was.
\<close>

definition update_result ::
  "env \<Rightarrow> table \<Rightarrow> string \<Rightarrow> string \<Rightarrow> string \<Rightarrow> string + table" where
  "update_result e tbl jid text st =
     (case update_exec_raises e of
        Some m \<Rightarrow> Inl m
      | None \<Rightarrow>
          (case get_by_job tbl jid of
             None \<Rightarrow> Inr tbl
           | Some rec \<Rightarrow>
               (case update_commit_raises e of
                  Some m \<Rightarrow> Inl m
                | None \<Rightarrow>
                    Inr (map (\<lambda>r. if id_pk r = id_pk rec
                                  then r\<lparr> analysis_text := Some text, status := st,
                                          updated_at := clock e \<rparr>
                                  else r) tbl))))"

section \<open>Reading a document (tools.py)\<close>

text \<open>\<open>content.replace('\n\n', '\n')\<close>: non-overlapping occurrences, left to right.\<close>

fun replace_nn :: "string \<Rightarrow> string" where
  "replace_nn (a # b # cs) =
     (if a = CHR 0x0A \<and> b = CHR 0x0A then CHR 0x0A # replace_nn cs
      else a # replace_nn (b # cs))"
| "replace_nn cs = cs"

text \<open>The body of the loop over the pages, \<open>k\<close> being \<open>page_num\<close>.\<close>

definition page_entry :: "nat \<Rightarrow> page \<Rightarrow> string" where
  "page_entry k p =
     (case p of
        PageText content \<Rightarrow>
          if content \<noteq> [] \<and> strip content \<noteq> []
          then ''Page '' @ str_nat (k + 1) @ '':\<newline>'' @ strip (replace_nn content)
                 @ ''\<newline>\<newline>''
          else ''Page '' @ str_nat (k + 1) @ '': [No extractable text found]\<newline>\<newline>''
      | PageError m \<Rightarrow>
          ''Page '' @ str_nat (k + 1) @ '': [Error extracting text: '' @ m
            @ '']\<newline>\<newline>'')"

fun page_report :: "nat \<Rightarrow> page list \<Rightarrow> string" where
  "page_report k [] = []"
| "page_report k (p # ps) = page_entry k p @ page_report (Suc k) ps"

definition financial_keywords :: "string list" where
  "financial_keywords =
     [''revenue'', ''profit'', ''loss'', ''financial'', ''balance'', ''cash'', ''income'',
      ''statement'']"

text \<open>
  \<open>read_data_tool\<close>. The files are a map from paths to contents; \<open>os.path.exists\<close> is
  membership in its domain and \<open>os.path.getsize\<close> the length of the content.
\<close>

definition read_data_tool :: "env \<Rightarrow> (string \<rightharpoonup> bytes) \<Rightarrow> string \<Rightarrow> string" where
  "read_data_tool e fs path =
     (case fs path of
        None \<Rightarrow> ''Error: File not found at path '' @ quoted path
                  @ ''. Please ensure the file exists and the path is correct.''
      | Some data \<Rightarrow>
          if \<not> access_R_OK e path
          then ''Error: No read permission for file at path '' @ quoted path
          else if length data = 0
          then ''Error: File at path '' @ quoted path @ '' is empty''
          else if length data > 50 * 1024 * 1024
          then ''Error: File at path '' @ quoted path @ '' is too large ('' @ str_nat (length data)
                 @ '' bytes). Maximum supported size is 50MB.''
          else
            (case open_raises e path of
               Some FileNotFoundError \<Rightarrow> ''Error: File not found at path '' @ quoted path
             | Some PermissionError \<Rightarrow>
                 ''Error: Permission denied when accessing file '' @ quoted path
             | Some MemoryError \<Rightarrow>
                 ''Error: Insufficient memory to process file '' @ quoted path
                   @ ''. The file may be too large.''
             | Some (OtherOSError m) \<Rightarrow>
                 ''Unexpected error reading PDF file '' @ quoted path @ '': '' @ m
             | None \<Rightarrow>
                 (case PdfReader e data of
                    PdfError m \<Rightarrow>
                      ''Error reading PDF structure: '' @ m
                        @ ''. The file may be corrupted or in an unsupported format.''
                  | Pdf is_encrypted pages \<Rightarrow>
                      if is_encrypted
                      then ''Error: PDF file at '' @ quoted path
                             @ '' is encrypted and cannot be read''
                      else if length pages = 0
                      then ''Error: PDF file at '' @ quoted path @ '' contains no pages''
                      else
                        (let full_report = page_report 0 pages
                         in if strip full_report = []
                            then ''Error: No readable content found in the PDF file. The file may be image-based or corrupted.''
                            else if \<not> list_ex (\<lambda>keyword. contains keyword (lower full_report))
                                          financial_keywords
                            then ''Warning: This document may not contain typical financial content.\<newline>\<newline>''
                                   @ full_report
                            else full_report))))"

section \<open>The state of the service and what a run does to it\<close>

text \<open>
  The Document Store (paths and contents), the task queue (task id, query and path of each
  work item, in the order of submission) and the ledger.
\<close>

record world =
  files :: "string \<rightharpoonup> bytes"
  queue :: "(string \<times> string \<times> string) list"
  db :: table

text \<open>
  The effects of a run, in the order in which the code performs them:
  \<open>self.update_state(state, meta)\<close> with the progress, the status text and, on failure,
  the error text and error type of \<open>meta\<close>; a call of \<open>os.remove\<close>; the write of an upload;
  a task handed to the queue; a ledger row saved; a call of the crew.
\<close>

datatype event =
    UpdateState string nat string "(string \<times> string) option"
  | Remove string
  | Write string
  | Enqueue string string string
  | SaveNew string
  | Kickoff string string

text \<open>
  \<open>if os.path.exists(file_path): try: os.remove(file_path) except Exception: ...\<close>, the
  clean-up block that the endpoints and the worker repeat: the removal is attempted when the
  file exists, and a failing removal is swallowed.
\<close>

definition cleanup :: "env \<Rightarrow> string \<Rightarrow> world \<Rightarrow> event list \<times> world" where
  "cleanup e path w =
     (if files w path \<noteq> None
      then ([Remove path], if remove_raises e then w else w\<lparr> files := (files w)(path := None) \<rparr>)
      else ([], w))"

section \<open>The crew (worker\_task.py)\<close>

text \<open>
  \<open>run_crew\<close>: the crew is kicked off; when it returns and a job id is given (and the
  module \<open>db\<close> can be imported) the result is written to the ledger with status
  \<open>finished\<close>. An exception of the crew leaves before the ledger is touched. The handler
  around the ledger update catches \<open>ImportError\<close> only, so an exception of \<open>update_result\<close>
  leaves \<open>run_crew\<close> as well. Outside an RQ worker \<open>get_current_job()\<close> gives no job, so
  \<open>job_id\<close> stays the argument.
\<close>

definition run_crew ::
  "env \<Rightarrow> string \<Rightarrow> string \<Rightarrow> string option \<Rightarrow> table \<Rightarrow> (string + CrewOutput) \<times> table" where
  "run_crew e qry path jid tbl =
     (case kickoff e qry path of
        Inl m \<Rightarrow> (Inl m, tbl)
      | Inr result \<Rightarrow>
          (case jid of
             None \<Rightarrow> (Inr result, tbl)
           | Some j \<Rightarrow>
               if j \<noteq> [] \<and> import_db e
               then (case update_result e tbl j (str_result result) ''finished'' of
                       Inl m \<Rightarrow> (Inl m, tbl)
                     | Inr tbl1 \<Rightarrow> (Inr result, tbl1))
               else (Inr result, tbl)))"

section \<open>The worker task (celery\_worker.py)\<close>

text \<open>The dictionary that the task returns on success.\<close>

definition basename :: "string \<Rightarrow> string" where
  "basename p = rev (takeWhile (\<lambda>c. c \<noteq> CHR ''/'') (rev p))"

definition success_result :: "string \<Rightarrow> string \<Rightarrow> string \<Rightarrow> string \<Rightarrow> (string \<times> val) list" where
  "success_result task_id qry path result_str =
     [(''status'', VStr ''SUCCESS''),
      (''result'', VStr result_str),
      (''progress'', VNat 100),
      (''message'', VStr ''Financial analysis completed successfully''),
      (''summary'', VDict [(''query'', VStr qry),
                           (''file_processed'', VStr (basename path)),
                           (''analysis_length'', VNat (length result_str)),
                           (''task_id'', VStr task_id)])]"

definition progress_state :: "nat \<Rightarrow> string \<Rightarrow> event" where
  "progress_state n msg = UpdateState ''PROGRESS'' n msg None"

text \<open>
  The check that the document is readable: the import of \<open>tools\<close> and the trial read, both
  inside one \<open>try\<close> whose handler turns every exception, the \<open>ValueError\<close> of the trial
  read included, into the message of a new \<open>ValueError\<close>. The result is the text of the
  caught exception, if any.
\<close>

definition document_check :: "env \<Rightarrow> world \<Rightarrow> string \<Rightarrow> string option" where
  "document_check e w path =
     (case import_tools e of
        Some m \<Rightarrow> Some m
      | None \<Rightarrow>
          (let test_read = read_data_tool e (files w) path
           in if startswith test_read ''Error:''
              then Some (''Document reading error: '' @ test_read)
              else None))"

text \<open>
  The \<open>try\<close> block of \<open>run_crew_task\<close>: the events so far, the state, and either the exception
  that leaves the block or the returned dictionary.
\<close>

definition run_crew_task_body ::
  "env \<Rightarrow> string \<Rightarrow> string \<Rightarrow> string \<Rightarrow> world
     \<Rightarrow> event list \<times> world \<times> (exn + (string \<times> val) list)" where
  "run_crew_task_body e task_id qry path w =
     (let t0 = [progress_state 0 ''Initializing analysis...'']
      in if qry = [] \<or> strip qry = []
         then (t0, w, Inl (ValueError ''Query cannot be empty''))
         else if path = [] \<or> files w path = None
         then (t0, w, Inl (ValueError (''File not found: '' @ path)))
         else
           (let t1 = t0 @ [progress_state 10 ''Validation complete, loading analysis tools...'']
            in case import_worker_task e of
                 Some (ImportError m) \<Rightarrow>
                   (t1, w, Inl (ImportError (''Failed to import crew modules: '' @ m)))
               | Some ex \<Rightarrow> (t1, w, Inl ex)
               | None \<Rightarrow>
                   (let t2 = t1 @ [progress_state 20
                          ''Analysis modules loaded, starting document verification...'']
                    in case document_check e w path of
                         Some m \<Rightarrow>
                           (t2, w, Inl (ValueError (''Document validation failed: '' @ m)))
                       | None \<Rightarrow>
                           (let t5 = t2 @
                                  [progress_state 30 ''Document verified, initializing AI agents...'',
                                   progress_state 40
                                     ''AI agents initialized, beginning financial analysis...'',
                                   progress_state 50 ''Running document verification phase...'',
                                   Kickoff qry path];
                                (outcome, tbl) = run_crew e qry path (Some task_id) (db w);
                                w1 = w\<lparr> db := tbl \<rparr>
                            in case outcome of
                                 Inl m \<Rightarrow> (t5, w1, Inl (RuntimeError (''Analysis failed: '' @ m)))
                               | Inr result \<Rightarrow>
                                   if \<not> truthy result
                                   then (t5, w1, Inl (RuntimeError
                                          ''Analysis failed: Analysis completed but returned no results''))
                                   else
                                     (let t6 = t5 @ [progress_state 80
                                            ''Analysis complete, generating final report...''];
                                          result_str = str_result result
                                      in if result_str = [] \<or> strip result_str = []
                                         then (t6, w1, Inl (ValueError
                                                ''Analysis completed but generated empty results''))
                                         else
                                           (let t7 = t6 @ [progress_state 90
                                                  ''Finalizing results and cleaning up...''];
                                                (ev, w2) = cleanup e path w1
                                            in (t7 @ ev, w2,
                                                Inr (success_result task_id qry path
                                                       result_str))))))))"

text \<open>The \<open>update_state(state='FAILURE', ...)\<close> of the four handlers.\<close>

definition failure_state :: "string \<Rightarrow> string \<Rightarrow> string \<Rightarrow> event" where
  "failure_state msg error_msg error_type =
     UpdateState ''FAILURE'' 0 msg (Some (error_msg, error_type))"

text \<open>
  \<open>run_crew_task\<close>: the \<open>try\<close> block followed by the handler of the exception that left it.
  The handlers of \<open>ValueError\<close>, \<open>RuntimeError\<close> and \<open>Exception\<close> clean the file up before
  they record the failure; the handler of \<open>ImportError\<close> records the failure only. Each
  handler raises the exception again.
\<close>

definition run_crew_task ::
  "env \<Rightarrow> string \<Rightarrow> string \<Rightarrow> string \<Rightarrow> world
     \<Rightarrow> event list \<times> world \<times> (exn + (string \<times> val) list)" where
  "run_crew_task e task_id qry path w =
     (case run_crew_task_body e task_id qry path w of
        (t, w1, Inr r) \<Rightarrow> (t, w1, Inr r)
      | (t, w1, Inl (ValueError m)) \<Rightarrow>
          (let (ev, w2) = cleanup e path w1
           in (t @ ev @ [failure_state ''Task failed due to validation error''
                           (''Validation error: '' @ m) ''ValidationError''],
               w2, Inl (ValueError m)))
      | (t, w1, Inl (ImportError m)) \<Rightarrow>
          (t @ [failure_state ''Task failed due to missing dependencies''
                  (''Import error: '' @ m) ''ImportError''],
           w1, Inl (ImportError m))
      | (t, w1, Inl (RuntimeError m)) \<Rightarrow>
          (let (ev, w2) = cleanup e path w1
           in (t @ ev @ [failure_state ''Task failed during analysis execution''
                           (''Runtime error: '' @ m) ''RuntimeError''],
               w2, Inl (RuntimeError m)))
      | (t, w1, Inl (OtherException ty m)) \<Rightarrow>
          (let (ev, w2) = cleanup e path w1
           in (t @ ev @ [failure_state ''Task failed due to unexpected error''
                           (''Unexpected error: '' @ m) ty],
               w2, Inl (OtherException ty m))))"

text \<open>
  What a client that polls the task can be told after each step of a run: the state and
  progress of every \<open>update_state\<close>, followed on a normal return by the state \<open>SUCCESS\<close>
  with the progress of the returned dictionary.
\<close>

fun state_reports :: "event list \<Rightarrow> (string \<times> nat) list" where
  "state_reports [] = []"
| "state_reports (UpdateState st n msg err # evs) = (st, n) # state_reports evs"
| "state_reports (ev # evs) = state_reports evs"

definition returned_progress :: "(string \<times> val) list \<Rightarrow> nat" where
  "returned_progress r = (case map_of r ''progress'' of Some (VNat n) \<Rightarrow> n | _ \<Rightarrow> 0)"

text \<open>The progress checkpoints of the task, in the order of the source.\<close>

definition checkpoints :: "(string \<times> nat) list" where
  "checkpoints = map (\<lambda>n. (''PROGRESS'', n)) [0, 10, 20, 30, 40, 50, 80, 90]"

definition reports ::
  "event list \<times> world \<times> (exn + (string \<times> val) list) \<Rightarrow> (string \<times> nat) list" where
  "reports run =
     (case run of
        (t, w, Inl ex) \<Rightarrow> state_reports t
      | (t, w, Inr r) \<Rightarrow> state_reports t @ [(''SUCCESS'', returned_progress r)])"

section \<open>The HTTP endpoints (main.py)\<close>

text \<open>
  A response is either an \<open>HTTPException\<close> with its status code and detail, or the
  dictionary that the endpoint returns, which FastAPI sends with status 200.
\<close>

datatype response = HTTPException nat string | JSONResponse "(string \<times> val) list"

fun status_code :: "response \<Rightarrow> nat" where
  "status_code (HTTPException code detail) = code"
| "status_code (JSONResponse body) = 200"

text \<open>\<open>str(e)\<close> of an \<open>HTTPException\<close>: the status code, a colon and the detail.\<close>

definition str_http :: "nat \<Rightarrow> string \<Rightarrow> string" where
  "str_http code detail = str_nat code @ '': '' @ detail"

text \<open>
  The upload: its file name (a missing name is the empty string, both fail the test
  \<open>not file.filename\<close>) and the outcome of \<open>await file.read()\<close>, \<open>Inl\<close> carrying the text
  of the exception it raises.
\<close>

record UploadFile =
  upload_filename :: string
  upload_read :: "string + bytes"

definition DEFAULT_QUERY :: string where
  "DEFAULT_QUERY = ''Analyze this financial document for investment insights''"

definition document_path :: "env \<Rightarrow> string" where
  "document_path e = ''data/financial_document_'' @ uuid4 e @ ''.pdf''"

text \<open>
  The checks of the upload, the same text in both submission endpoints. The size checks
  raise inside a \<open>try\<close> whose handler catches \<open>Exception\<close>, so their \<open>HTTPException\<close> is
  caught and wrapped in a second one, again with status 400.
\<close>

definition validate_upload :: "UploadFile \<Rightarrow> response + bytes" where
  "validate_upload file =
     (if upload_filename file = []
      then Inl (HTTPException 400 ''No filename provided'')
      else if \<not> endswith (lower (upload_filename file)) ''.pdf''
      then Inl (HTTPException 400
             (''Unsupported file format '' @ quoted (upload_filename file)
                @ ''. Only PDF files are supported.''))
      else
        (case upload_read file of
           Inl m \<Rightarrow> Inl (HTTPException 400 (''Error reading uploaded file: '' @ m))
         | Inr contents \<Rightarrow>
             if length contents = 0
             then Inl (HTTPException 400
                    (''Error reading uploaded file: '' @ str_http 400 ''Uploaded file is empty''))
             else if length contents > 50 * 1024 * 1024
             then Inl (HTTPException 400
                    (''Error reading uploaded file: ''
                       @ str_http 400
                           (''File too large ('' @ str_nat (length contents)
                              @ '' bytes). Maximum supported size is 50MB.'')))
             else Inr contents))"

text \<open>
  The uploads that the spec calls invalid: the file name does not end in \<open>.pdf\<close> (a
  missing name included), the content is empty, or it is larger than 50 MiB.
\<close>

definition invalid_upload :: "UploadFile \<Rightarrow> bool" where
  "invalid_upload file =
     (\<not> endswith (lower (upload_filename file)) ''.pdf''
      \<or> (case upload_read file of
            Inl m \<Rightarrow> False
          | Inr contents \<Rightarrow> length contents = 0 \<or> length contents > 50 * 1024 * 1024))"

text \<open>The three tests on the text of an exception of the analysis.\<close>

definition rate_limit_phrasing :: "string \<Rightarrow> bool" where
  \<open>rate_limit_phrasing error_msg =
     (contains ''RateLimitError'' error_msg \<or> contains ''RESOURCE_EXHAUSTED'' error_msg
      \<or> contains ''code": 429'' error_msg \<or> contains ''rate limit'' (lower error_msg))\<close>

definition auth_phrasing :: "string \<Rightarrow> bool" where
  "auth_phrasing error_msg =
     (contains ''authentication'' (lower error_msg) \<or> contains ''api key'' (lower error_msg)
      \<or> contains ''unauthorized'' (lower error_msg))"

definition no_content_phrasing :: "string \<Rightarrow> bool" where
  "no_content_phrasing error_msg = contains ''No readable content'' error_msg"

definition classify_error :: "string \<Rightarrow> response" where
  "classify_error error_msg =
     (if rate_limit_phrasing error_msg
      then HTTPException 429
             ''AI service rate limit exceeded. Please wait a moment and try again.''
      else if auth_phrasing error_msg
      then HTTPException 503
             ''AI service authentication failed. Please check API key configuration.''
      else if no_content_phrasing error_msg
      then HTTPException 400
             ''Could not extract text from the PDF. The file may be image-based, corrupted, or encrypted.''
      else HTTPException 500 (''Analysis failed: '' @ error_msg))"

text \<open>
  The \<open>try\<close> block of \<open>analyze_document\<close> with its two handlers: \<open>HTTPException\<close> is raised
  again as it is, every other exception becomes a 500.
\<close>

definition sync_body ::
  "env \<Rightarrow> UploadFile \<Rightarrow> string \<Rightarrow> bytes \<Rightarrow> string \<Rightarrow> world \<Rightarrow> event list \<times> world \<times> response" where
  "sync_body e file qry contents path w =
     (case write_raises e of
        Some m \<Rightarrow> ([], w, HTTPException 500 (''Unexpected error processing document: '' @ m))
      | None \<Rightarrow>
          (let w1 = w\<lparr> files := (files w)(path \<mapsto> contents) \<rparr>;
               q1 = (if blank qry then DEFAULT_QUERY else qry)
           in case import_worker_task e of
                Some (ImportError m) \<Rightarrow>
                  ([Write path], w1,
                   HTTPException 500
                     (''Analysis module import failed: '' @ m
                        @ ''. Please ensure all dependencies are installed.''))
              | Some ex \<Rightarrow>
                  ([Write path], w1,
                   HTTPException 500 (''Unexpected error processing document: '' @ str_exn ex))
              | None \<Rightarrow>
                  (let (outcome, tbl) = run_crew e (strip q1) path None (db w1);
                       w2 = w1\<lparr> db := tbl \<rparr>;
                       ev = [Write path, Kickoff (strip q1) path]
                   in case outcome of
                        Inl m \<Rightarrow> (ev, w2, classify_error m)
                      | Inr result \<Rightarrow>
                          if \<not> truthy result
                          then (ev, w2,
                                classify_error
                                  (str_http 500
                                     ''Analysis completed but returned no results. Please try again or check your document.''))
                          else (ev, w2,
                                JSONResponse
                                  [(''status'', VStr ''success''),
                                   (''query'', VStr q1),
                                   (''analysis'', VStr (str_result result)),
                                   (''file_processed'', VStr (upload_filename file)),
                                   (''file_size_bytes'', VNat (length contents)),
                                   (''processing_mode'', VStr ''synchronous'')]))))"

text \<open>\<open>analyze_document\<close>: the availability check, the checks of the upload, the \<open>try\<close>
  block and the \<open>finally\<close> clause that removes the file.\<close>

definition analyze_document ::
  "env \<Rightarrow> UploadFile \<Rightarrow> string \<Rightarrow> world \<Rightarrow> event list \<times> world \<times> response" where
  "analyze_document e file qry w =
     (if \<not> has_ai e
      then ([], w, HTTPException 503
             ''AI analysis unavailable - GEMINI_API_KEY not configured. Please set the API key in your environment variables.'')
      else
        (case validate_upload file of
           Inl r \<Rightarrow> ([], w, r)
         | Inr contents \<Rightarrow>
             (let (ev, w1, r) = sync_body e file qry contents (document_path e) w;
                  (ev2, w2) = cleanup e (document_path e) w1
              in (ev @ ev2, w2, r))))"

text \<open>
  \<open>analyze_document_async\<close> in two parts. The first runs up to and including the hand-over
  of the task to the queue; it ends with a response when a check or the hand-over fails,
  and otherwise with the task id, the query, the path and the size of the upload. The
  second saves the ledger row, when the ledger is available, and builds the response; an
  exception of \<open>save_new\<close> is printed and dropped.
\<close>

definition async_submit ::
  "env \<Rightarrow> UploadFile \<Rightarrow> string \<Rightarrow> world
     \<Rightarrow> event list \<times> world \<times> (response + string \<times> string \<times> string \<times> nat)" where
  "async_submit e file qry w =
     (if \<not> has_celery e
      then ([], w, Inl (HTTPException 503
             ''Async processing unavailable. Celery worker not configured. Please install and start Celery or use the synchronous endpoint.''))
      else if \<not> has_ai e
      then ([], w, Inl (HTTPException 503
             ''AI analysis unavailable - GEMINI_API_KEY not configured. Please set the API key in your environment variables.''))
      else
        (case validate_upload file of
           Inl r \<Rightarrow> ([], w, Inl r)
         | Inr contents \<Rightarrow>
             (let path = document_path e
              in case write_raises e of
                   Some m \<Rightarrow>
                     (let (ev, w1) = cleanup e path w
                      in (ev, w1, Inl (HTTPException 500
                                        (''Error submitting async task: '' @ m))))
                 | None \<Rightarrow>
                     (let w1 = w\<lparr> files := (files w)(path \<mapsto> contents) \<rparr>;
                          q1 = (if blank qry then DEFAULT_QUERY else qry)
                      in case delay e of
                           Inl m \<Rightarrow>
                             (let (ev, w2) = cleanup e path w1
                              in (Write path # ev, w2,
                                  Inl (HTTPException 503
                                        (''Failed to submit task to background processor: '' @ m))))
                         | Inr task_id \<Rightarrow>
                             (let w2 = w1\<lparr> queue := queue w1 @ [(task_id, strip q1, path)] \<rparr>
                              in if task_id = []
                                 then
                                   (let (ev, w3) = cleanup e path w2
                                    in ([Write path, Enqueue task_id (strip q1) path] @ ev, w3,
                                        Inl (HTTPException 503
                                              (''Failed to submit task to background processor: ''
                                                 @ ''Failed to generate task ID''))))
                                 else ([Write path, Enqueue task_id (strip q1) path], w2,
                                       Inr (task_id, q1, path, length contents)))))))"

definition async_record ::
  "env \<Rightarrow> UploadFile \<Rightarrow> string \<times> string \<times> string \<times> nat \<Rightarrow> world
     \<Rightarrow> event list \<times> world \<times> response" where
  "async_record e file job w =
     (case job of
        (task_id, q1, path, file_size) \<Rightarrow>
          (let (ev, w1) =
                 (if has_db e \<and> save_new_raises e = None
                  then ([SaveNew task_id],
                        w\<lparr> db := snd (save_new (clock e) (db w) task_id (upload_filename file)
                                         (strip q1) path) \<rparr>)
                  else ([], w))
           in (ev, w1,
               JSONResponse
                 [(''status'', VStr ''queued''),
                  (''task_id'', VStr task_id),
                  (''file_processed'', VStr (upload_filename file)),
                  (''file_size_bytes'', VNat file_size),
                  (''message'', VStr ''Task submitted successfully to background processor''),
                  (''processing_mode'', VStr ''asynchronous''),
                  (''status_endpoint'', VStr (''/task-status/'' @ task_id))])))"

definition analyze_document_async ::
  "env \<Rightarrow> UploadFile \<Rightarrow> string \<Rightarrow> world \<Rightarrow> event list \<times> world \<times> response" where
  "analyze_document_async e file qry w =
     (case async_submit e file qry w of
        (ev, w1, Inl r) \<Rightarrow> (ev, w1, r)
      | (ev, w1, Inr job) \<Rightarrow>
          (let (ev2, w2, r) = async_record e file job w1 in (ev @ ev2, w2, r)))"

text \<open>
  The result backend maps a task id to the state and the info stored for it. A task id
  that the backend does not know is reported by \<open>AsyncResult\<close> in state \<open>PENDING\<close> with no
  info.
\<close>

type_synonym backend = "string \<rightharpoonup> string \<times> val"

definition AsyncResult :: "backend \<Rightarrow> string \<Rightarrow> string \<times> val" where
  "AsyncResult b task_id = (case b task_id of None \<Rightarrow> (''PENDING'', VNull) | Some m \<Rightarrow> m)"

text \<open>\<open>result.info or {}\<close> followed by \<open>.get\<close>: a false value gives the empty dictionary,
  a dictionary itself, and any other value has no \<open>get\<close>.\<close>

definition info_or_empty :: "val \<Rightarrow> string + (string \<times> val) list" where
  "info_or_empty v =
     (case v of
        VNull \<Rightarrow> Inr []
      | VDict d \<Rightarrow> Inr d
      | VStr s \<Rightarrow>
          if s = [] then Inr []
          else Inl (quoted ''str'' @ '' object has no attribute '' @ quoted ''get'')
      | VNat n \<Rightarrow>
          if n = 0 then Inr []
          else Inl (quoted ''int'' @ '' object has no attribute '' @ quoted ''get''))"

definition dict_get :: "(string \<times> val) list \<Rightarrow> string \<Rightarrow> val \<Rightarrow> val" where
  "dict_get d k dflt = (case map_of d k of Some v \<Rightarrow> v | None \<Rightarrow> dflt)"

definition status_error :: "string \<Rightarrow> response" where
  "status_error m = HTTPException 500 (''Error checking task status: '' @ m)"

definition task_status :: "env \<Rightarrow> backend \<Rightarrow> string \<Rightarrow> response" where
  "task_status e b task_id =
     (if \<not> has_celery e then HTTPException 503 ''Celery not available.''
      else if task_id = [] \<or> strip task_id = [] then HTTPException 400 ''Task ID is required''
      else
        (case AsyncResult_raises e of
           Some m \<Rightarrow> status_error m
         | None \<Rightarrow>
             (let (state, info) = AsyncResult b task_id
              in if state = ''PENDING''
                 then JSONResponse
                        [(''task_id'', VStr task_id),
                         (''state'', VStr state),
                         (''status'', VStr ''Task is waiting in queue to be processed''),
                         (''progress'', VNat 0),
                         (''message'', VStr ''Your task is queued and will begin processing soon'')]
                 else if state = ''PROGRESS''
                 then (case info_or_empty info of
                         Inl m \<Rightarrow> status_error m
                       | Inr d \<Rightarrow>
                           JSONResponse
                             [(''task_id'', VStr task_id),
                              (''state'', VStr state),
                              (''progress'', dict_get d ''progress'' (VNat 0)),
                              (''status'', dict_get d ''status'' (VStr ''Processing...'')),
                              (''message'', VStr ''Task is currently being processed'')])
                 else if state = ''SUCCESS''
                 then (case info_or_empty info of
                         Inl m \<Rightarrow> status_error m
                       | Inr d \<Rightarrow>
                           JSONResponse
                             [(''task_id'', VStr task_id),
                              (''state'', VStr state),
                              (''progress'', VNat 100),
                              (''status'', VStr ''Task completed successfully''),
                              (''result'', dict_get d ''result'' (VStr ''No result data available'')),
                              (''message'', dict_get d ''message'' (VStr ''Analysis completed'')),
                              (''summary'', dict_get d ''summary'' (VDict []))])
                 else if state = ''FAILURE''
                 then (case info_or_empty info of
                         Inl m \<Rightarrow> status_error m
                       | Inr d \<Rightarrow>
                           JSONResponse
                             [(''task_id'', VStr task_id),
                              (''state'', VStr state),
                              (''progress'', VNat 0),
                              (''status'', dict_get d ''status'' (VStr ''Task failed'')),
                              (''error'', dict_get d ''error'' (VStr (py_str e info))),
                              (''error_type'', dict_get d ''error_type'' (VStr ''Unknown'')),
                              (''message'', VStr ''Task failed to complete'')])
                 else JSONResponse
                        [(''task_id'', VStr task_id),
                         (''state'', VStr state),
                         (''progress'', VNat 0),
                         (''status'', VStr (''Task is in '' @ state @ '' state'')),
                         (''message'', VStr (''Task status: '' @ state))])))"

definition opt_str :: "string option \<Rightarrow> val" where
  "opt_str x = (case x of None \<Rightarrow> VNull | Some s \<Rightarrow> VStr s)"

definition analysis_record :: "env \<Rightarrow> table \<Rightarrow> string \<Rightarrow> response" where
  "analysis_record e tbl jid =
     (if \<not> has_db e then HTTPException 503 ''Database not available.''
      else if jid = [] \<or> strip jid = [] then HTTPException 400 ''Job ID is required''
      else
        (case get_by_job_raises e of
           Some m \<Rightarrow> HTTPException 500 (''Error retrieving analysis record: '' @ m)
         | None \<Rightarrow>
             (case get_by_job tbl jid of
                None \<Rightarrow> HTTPException 404 ''Analysis record not found''
              | Some rec \<Rightarrow>
                  JSONResponse
                    [(''job_id'', opt_str (job_id rec)),
                     (''filename'', VStr (filename rec)),
                     (''query'', VStr (query rec)),
                     (''status'', VStr (status rec)),
                     (''analysis'', opt_str (analysis_text rec)),
                     (''created_at'', VStr (str_nat (created_at rec))),
                     (''updated_at'', VStr (str_nat (updated_at rec)))])))"

section \<open>Example inputs\<close>

text \<open>An environment in which every component is available and nothing fails, an empty
  state, and a small upload.\<close>

definition env0 :: env where
  "env0 = \<lparr> has_celery = True, has_db = True, has_ai = True, uuid4 = ''u1'', clock = 7,
            write_raises = None, remove_raises = False,
            access_R_OK = (\<lambda>p. True), open_raises = (\<lambda>p. None),
            PdfReader = (\<lambda>d. Pdf False [PageText ''Revenue 10'']),
            import_worker_task = None, import_tools = None, import_db = True,
            kickoff = (\<lambda>q p. Inr \<lparr> truthy = True, str_result = ''report'' \<rparr>),
            delay = Inr ''t1'', save_new_raises = None, get_by_job_raises = None,
            update_exec_raises = None, update_commit_raises = None,
            AsyncResult_raises = None, py_str = (\<lambda>v. ''None'') \<rparr>"

definition world0 :: world where
  "world0 = \<lparr> files = Map.empty, queue = [], db = [] \<rparr>"

definition upload0 :: UploadFile where
  "upload0 = \<lparr> upload_filename = ''a.pdf'', upload_read = Inr ''%PDF'' \<rparr>"

text \<open>The same environment, except that the crew modules cannot be imported.\<close>

definition env_import_fails :: env where
  "env_import_fails =
     env0\<lparr> import_worker_task := Some (ImportError ''No module named crewai'') \<rparr>"

text \<open>The same environment, except that the PDF library finds one page without text in
  every document, as it does in a scanned document.\<close>

definition env_scanned :: env where
  "env_scanned = env0\<lparr> PdfReader := (\<lambda>d. Pdf False [PageText '''']) \<rparr>"

text \<open>Uploads that fail the checks: an empty one, one of 50 MiB and a byte, and one whose
  name does not end in \<open>.pdf\<close>.\<close>

definition upload_empty :: UploadFile where
  "upload_empty = \<lparr> upload_filename = ''a.pdf'', upload_read = Inr [] \<rparr>"

definition upload_big :: UploadFile where
  "upload_big = \<lparr> upload_filename = ''a.pdf'',
                  upload_read = Inr (replicate 52428801 (CHR ''x'')) \<rparr>"

definition upload_txt :: UploadFile where
  "upload_txt = \<lparr> upload_filename = ''notes.txt'', upload_read = Inr ''hello'' \<rparr>"

text \<open>The same environment, except that the crew raises an exception with a given text.\<close>

definition env_raises :: "string \<Rightarrow> env" where
  "env_raises m = env0\<lparr> kickoff := (\<lambda>q p. Inl m) \<rparr>"


text \<open>The same environment, except that the ledger file is locked when the worker commits
  its update, and one in which the worker's ledger file has no table.\<close>

definition env_locked :: env where
  "env_locked = env0\<lparr> update_commit_raises := Some ''database is locked'' \<rparr>"

definition env_no_table :: env where
  "env_no_table = env0\<lparr> update_exec_raises := Some ''no such table: analysis'' \<rparr>"

text \<open>A ledger of three rows, two of them of the job \<open>j1\<close>.\<close>

definition ledger3 :: table where
  "ledger3 =
     [\<lparr> id_pk = 1, job_id = Some ''j0'', filename = ''z.pdf'', query = ''q'',
        file_path = ''data/z.pdf'', status = ''queued'', analysis_text = None,
        created_at = 0, updated_at = 0 \<rparr>,
      \<lparr> id_pk = 2, job_id = Some ''j1'', filename = ''a.pdf'', query = ''q'',
        file_path = ''data/a.pdf'', status = ''queued'', analysis_text = None,
        created_at = 1, updated_at = 1 \<rparr>,
      \<lparr> id_pk = 3, job_id = Some ''j1'', filename = ''b.pdf'', query = ''q'',
        file_path = ''data/b.pdf'', status = ''queued'', analysis_text = None,
        created_at = 2, updated_at = 2 \<rparr>]"

text \<open>A state whose Document Store holds one document.\<close>

definition world1 :: world where
  "world1 = \<lparr> files = [''data/a.pdf'' \<mapsto> ''%PDF''], queue = [], db = [] \<rparr>"

section \<open>Properties of the job ledger\<close>




lemma find_map_update:
  assumes "find (\<lambda>r. job_id r = Some jid) tbl = Some rec"
  shows "find (\<lambda>r. job_id r = Some jid)
           (map (\<lambda>r. if id_pk r = id_pk rec
                     then r\<lparr> analysis_text := Some t, status := s, updated_at := now \<rparr>
                     else r) tbl)
         = Some (rec\<lparr> analysis_text := Some t, status := s, updated_at := now \<rparr>)"
  using assms by (induction tbl) (auto split: if_splits)




section \<open>Evaluation of the string operations\<close>

lemma str_nat_digit: "n < 10 \<Longrightarrow> str_nat n = [''0123456789'' ! n]"
  by (simp add: str_nat.simps)

lemmas string_eval = strip_def is_space_def lower_def lower_char_def upper_letters_def
  lower_letters_def startswith_def endswith_def blank_def quoted_def

section \<open>Properties of the worker task\<close>

lemma state_reports_append: "state_reports (xs @ ys) = state_reports xs @ state_reports ys"
  by (induction xs rule: state_reports.induct) auto

lemma body_reports:
  assumes "run_crew_task_body e tid q p w = (t, w1, out)"
  shows "case out of
           Inr res \<Rightarrow> state_reports t = checkpoints \<and> returned_progress res = 100
         | Inl ex \<Rightarrow> state_reports t \<noteq> [] \<and> prefix (state_reports t) checkpoints"
  using assms
  unfolding run_crew_task_body_def Let_def
  by (auto simp: checkpoints_def progress_state_def state_reports_append cleanup_def
        success_result_def returned_progress_def
        split: if_splits option.splits exn.splits sum.splits prod.splits)

lemma run_reports:
  "case snd (snd (run_crew_task e tid q p w)) of
     Inr res \<Rightarrow> reports (run_crew_task e tid q p w) = checkpoints @ [(''SUCCESS'', 100)]
   | Inl ex \<Rightarrow> \<exists>pre. pre \<noteq> [] \<and> prefix pre checkpoints
                 \<and> reports (run_crew_task e tid q p w) = pre @ [(''FAILURE'', 0)]"
proof -
  obtain t w1 out where b: "run_crew_task_body e tid q p w = (t, w1, out)"
    by (cases "run_crew_task_body e tid q p w") auto
  from body_reports [OF b] show ?thesis
    unfolding run_crew_task_def b reports_def
    by (cases out)
       (auto simp: state_reports_append failure_state_def cleanup_def Let_def
             split: exn.splits prod.splits if_splits)
qed

lemma prefix_checkpoints_props:
  assumes "prefix pre checkpoints"
  shows "sorted (map snd pre)" and "\<forall>(s, n) \<in> set pre. s = ''PROGRESS'' \<and> n < 100"
proof -
  from assms obtain suf where c: "checkpoints = pre @ suf" by (auto simp: prefix_def)
  have "sorted (map snd checkpoints)" by (simp add: checkpoints_def)
  then show "sorted (map snd pre)" unfolding c by (simp add: sorted_append)
  have "\<forall>(s, n) \<in> set checkpoints. s = ''PROGRESS'' \<and> n < 100" by (simp add: checkpoints_def)
  then show "\<forall>(s, n) \<in> set pre. s = ''PROGRESS'' \<and> n < 100" unfolding c by auto
qed

text \<open>
  Claim C1, amended. The reports of a run are the progress checkpoints 0, 10, 20, 30, 40,
  50, 80, 90 in this order, all of them followed by \<open>SUCCESS\<close> with progress 100 when the
  task returns, or a non-empty initial part of them followed by \<open>FAILURE\<close> with progress 0
  when it raises. So progress never decreases while the job runs nor on the transition to
  success, it is reset to 0 on the transition to failure, and it is 100 exactly in the state
  \<open>SUCCESS\<close>.
\<close>

theorem progress_resets_on_failure:
  "(case snd (snd (run_crew_task e tid q p w)) of
      Inr res \<Rightarrow> reports (run_crew_task e tid q p w) = checkpoints @ [(''SUCCESS'', 100)]
    | Inl ex \<Rightarrow> \<exists>pre. pre \<noteq> [] \<and> prefix pre checkpoints
                  \<and> reports (run_crew_task e tid q p w) = pre @ [(''FAILURE'', 0)])
   \<and> (\<forall>(s, n) \<in> set (reports (run_crew_task e tid q p w)). (n = 100) = (s = ''SUCCESS''))
   \<and> sorted (map snd (butlast (reports (run_crew_task e tid q p w))))
   \<and> (\<forall>res. snd (snd (run_crew_task e tid q p w)) = Inr res \<longrightarrow>
         sorted (map snd (reports (run_crew_task e tid q p w))))"
proof (cases "snd (snd (run_crew_task e tid q p w))")
  case (Inl ex)
  with run_reports [of e tid q p w] obtain pre where
    pre: "pre \<noteq> []" "prefix pre checkpoints"
      "reports (run_crew_task e tid q p w) = pre @ [(''FAILURE'', 0)]"
    by auto
  from prefix_checkpoints_props [OF pre(2)] pre Inl show ?thesis
    by (auto simp: butlast_append)
next
  case (Inr res)
  with run_reports [of e tid q p w] have
    r: "reports (run_crew_task e tid q p w) = checkpoints @ [(''SUCCESS'', 100)]"
    by auto
  show ?thesis unfolding r using Inr by (simp add: checkpoints_def)
qed

text \<open>A run in which nothing fails, evaluated.\<close>

lemma read_data_tool_env0:
  "read_data_tool env0 [''data/a.pdf'' \<mapsto> ''%PDF''] ''data/a.pdf''
     = ''Page 1:\<newline>Revenue 10\<newline>\<newline>''"
  by (simp add: read_data_tool_def env0_def page_entry_def str_nat_digit string_eval
      financial_keywords_def)

lemma run_env0:
  "run_crew_task env0 ''t1'' ''q'' ''data/a.pdf'' world1 =
     ([progress_state 0 ''Initializing analysis...'',
       progress_state 10 ''Validation complete, loading analysis tools...'',
       progress_state 20 ''Analysis modules loaded, starting document verification...'',
       progress_state 30 ''Document verified, initializing AI agents...'',
       progress_state 40 ''AI agents initialized, beginning financial analysis...'',
       progress_state 50 ''Running document verification phase...'',
       Kickoff ''q'' ''data/a.pdf'',
       progress_state 80 ''Analysis complete, generating final report...'',
       progress_state 90 ''Finalizing results and cleaning up...'',
       Remove ''data/a.pdf''],
      \<lparr> files = Map.empty, queue = [], db = [] \<rparr>,
      Inr (success_result ''t1'' ''q'' ''data/a.pdf'' ''report''))"
proof -
  have dc: "document_check env0 world1 ''data/a.pdf'' = None"
  proof -
    have "import_tools env0 = None" by (simp add: env0_def)
    then show ?thesis
      by (simp add: document_check_def world1_def read_data_tool_env0 startswith_def)
  qed
  have rc: "run_crew env0 ''q'' ''data/a.pdf'' (Some ''t1'') [] =
              (Inr \<lparr> truthy = True, str_result = ''report'' \<rparr>, [])"
    by (simp add: run_crew_def env0_def update_result_def get_by_job_def)
  have sq: "strip ''q'' = ''q''" "strip ''report'' = ''report''"
    by (simp_all add: strip_def is_space_def)
  have e0: "import_worker_task env0 = None" "remove_raises env0 = False"
    by (simp_all add: env0_def)
  have w1: "files world1 ''data/a.pdf'' = Some ''%PDF''" "db world1 = []"
    by (simp_all add: world1_def)
  have body: "run_crew_task_body env0 ''t1'' ''q'' ''data/a.pdf'' world1 =
     ([progress_state 0 ''Initializing analysis...'',
       progress_state 10 ''Validation complete, loading analysis tools...'',
       progress_state 20 ''Analysis modules loaded, starting document verification...'',
       progress_state 30 ''Document verified, initializing AI agents...'',
       progress_state 40 ''AI agents initialized, beginning financial analysis...'',
       progress_state 50 ''Running document verification phase...'',
       Kickoff ''q'' ''data/a.pdf'',
       progress_state 80 ''Analysis complete, generating final report...'',
       progress_state 90 ''Finalizing results and cleaning up...'',
       Remove ''data/a.pdf''],
      \<lparr> files = Map.empty, queue = [], db = [] \<rparr>,
      Inr (success_result ''t1'' ''q'' ''data/a.pdf'' ''report''))"
    unfolding run_crew_task_body_def Let_def
    apply (simp add: sq e0 w1 dc rc cleanup_def)
    apply (simp add: world1_def)
    done
  show ?thesis unfolding run_crew_task_def body by simp
qed

theorem progress_resets_on_failure_witness:
  "reports (run_crew_task env0 ''t1'' ''q'' ''data/a.pdf'' world1)
     = [(''PROGRESS'', 0), (''PROGRESS'', 10), (''PROGRESS'', 20), (''PROGRESS'', 30),
        (''PROGRESS'', 40), (''PROGRESS'', 50), (''PROGRESS'', 80), (''PROGRESS'', 90),
        (''SUCCESS'', 100)]
   \<and> snd (snd (run_crew_task env0 ''t1'' ''q'' ''data/a.pdf'' world1))
       = Inr (success_result ''t1'' ''q'' ''data/a.pdf'' ''report'')
   \<and> sorted (map snd (reports (run_crew_task env0 ''t1'' ''q'' ''data/a.pdf'' world1)))"
  using progress_resets_on_failure [of env0 "''t1''" "''q''" "''data/a.pdf''" world1]
  by (simp add: run_env0 checkpoints_def)

text \<open>A run in which the import of the crew modules fails, evaluated.\<close>

lemma run_import_fails:
  "run_crew_task env_import_fails ''t1'' ''q'' ''data/a.pdf'' world1 =
     ([progress_state 0 ''Initializing analysis...'',
       progress_state 10 ''Validation complete, loading analysis tools...'',
       failure_state ''Task failed due to missing dependencies''
         ''Import error: Failed to import crew modules: No module named crewai'' ''ImportError''],
      world1,
      Inl (ImportError ''Failed to import crew modules: No module named crewai''))"
proof -
  have sq: "strip ''q'' = ''q''" by (simp add: strip_def is_space_def)
  have body: "run_crew_task_body env_import_fails ''t1'' ''q'' ''data/a.pdf'' world1 =
     ([progress_state 0 ''Initializing analysis...'',
       progress_state 10 ''Validation complete, loading analysis tools...''],
      world1,
      Inl (ImportError ''Failed to import crew modules: No module named crewai''))"
    unfolding run_crew_task_body_def Let_def
    apply (simp add: sq)
    apply (simp add: world1_def env_import_fails_def env0_def)
    done
  show ?thesis unfolding run_crew_task_def body by simp
qed

text \<open>
  Claim C1, as the spec states it: progress never decreases over the lifetime of a job,
  the transition to a terminal state included. In the run whose import fails the reported
  progress is 0, then 10, then 0 with the state \<open>FAILURE\<close>.
\<close>

theorem progress_decreases_counterexample:
  "reports (run_crew_task env_import_fails ''t1'' ''q'' ''data/a.pdf'' world1)
     = [(''PROGRESS'', 0), (''PROGRESS'', 10), (''FAILURE'', 0)]
   \<and> \<not> sorted (map snd (reports (run_crew_task env_import_fails ''t1'' ''q'' ''data/a.pdf'' world1)))"
  by (simp add: run_import_fails reports_def progress_state_def failure_state_def)

text \<open>
  Claim C2: the deletion of the document is attempted on every terminal outcome before the
  outcome is reported. In the run whose import fails the handler of \<open>ImportError\<close> records
  the failure and raises again: no removal is among the events and the document is still
  in the Document Store when the task has ended.
\<close>

theorem import_error_keeps_document:
  "fst (run_crew_task env_import_fails ''t1'' ''q'' ''data/a.pdf'' world1) =
     [progress_state 0 ''Initializing analysis...'',
      progress_state 10 ''Validation complete, loading analysis tools...'',
      failure_state ''Task failed due to missing dependencies''
        ''Import error: Failed to import crew modules: No module named crewai'' ''ImportError'']
   \<and> Remove ''data/a.pdf'' \<notin> set (fst (run_crew_task env_import_fails ''t1'' ''q'' ''data/a.pdf'' world1))
   \<and> files (fst (snd (run_crew_task env_import_fails ''t1'' ''q'' ''data/a.pdf'' world1))) ''data/a.pdf''
       = Some ''%PDF''
   \<and> snd (snd (run_crew_task env_import_fails ''t1'' ''q'' ''data/a.pdf'' world1))
       = Inl (ImportError ''Failed to import crew modules: No module named crewai'')"
  by (simp add: run_import_fails progress_state_def failure_state_def) (simp add: world1_def)

text \<open>
  Every other outcome does what the claim says: when the run does not end with an
  \<open>ImportError\<close>, the removal of an existing document precedes the report of the outcome,
  and the document is gone afterwards unless the removal itself failed.
\<close>

lemma body_files:
  assumes "run_crew_task_body e tid q p w = (t, w1, out)"
  shows "case out of
           Inr res \<Rightarrow> (files w p \<noteq> None \<longrightarrow> Remove p \<in> set t)
                      \<and> (\<not> remove_raises e \<longrightarrow> files w1 p = None)
         | Inl ex \<Rightarrow> files w1 = files w \<and> Remove p \<notin> set t"
  using assms
  unfolding run_crew_task_body_def Let_def
  by (auto simp: progress_state_def cleanup_def
        split: if_splits option.splits exn.splits sum.splits prod.splits)

lemma other_outcomes_clean_up:
  assumes "run_crew_task e tid q p w = (t, w', out)"
    and "\<forall>m. out \<noteq> Inl (ImportError m)"
  shows "(files w p \<noteq> None \<longrightarrow>
            Remove p \<in> set (case out of Inl ex \<Rightarrow> butlast t | Inr res \<Rightarrow> t))
         \<and> (\<not> remove_raises e \<longrightarrow> files w' p = None)"
proof -
  obtain t0 w1 out0 where b: "run_crew_task_body e tid q p w = (t0, w1, out0)"
    by (cases "run_crew_task_body e tid q p w") auto
  from body_files [OF b] assms show ?thesis
    unfolding run_crew_task_def b
    by (cases out0)
       (auto simp: cleanup_def Let_def butlast_append
             split: exn.splits prod.splits if_splits)
qed

section \<open>Properties of the ledger update\<close>

lemma find_first_index:
  assumes "find P xs = Some x"
  shows "\<exists>i<length xs. xs ! i = x \<and> P x \<and> (\<forall>k<i. \<not> P (xs ! k))"
  using assms by (auto simp: find_Some_iff)

lemma map_update_one:
  assumes "distinct (map id_pk tbl)" and "i < length tbl"
  shows "map (\<lambda>r. if id_pk r = id_pk (tbl ! i) then f r else r) tbl = tbl[i := f (tbl ! i)]"
proof (rule nth_equalityI)
  show "length (map (\<lambda>r. if id_pk r = id_pk (tbl ! i) then f r else r) tbl)
          = length (tbl[i := f (tbl ! i)])"
    by simp
next
  fix k
  assume "k < length (map (\<lambda>r. if id_pk r = id_pk (tbl ! i) then f r else r) tbl)"
  then have k: "k < length tbl" by simp
  have "(id_pk (tbl ! k) = id_pk (tbl ! i)) = (k = i)"
    using nth_eq_iff_index_eq [OF assms(1), of k i] k assms(2) by simp
  then show "map (\<lambda>r. if id_pk r = id_pk (tbl ! i) then f r else r) tbl ! k
               = tbl[i := f (tbl ! i)] ! k"
    using k assms(2) by (auto simp: nth_list_update)
qed

lemma update_result_raises_iff:
  "(\<exists>m. update_result e tbl jid t s = Inl m) =
     (update_exec_raises e \<noteq> None
      \<or> (get_by_job tbl jid \<noteq> None \<and> update_commit_raises e \<noteq> None))"
  by (auto simp: update_result_def split: option.splits)

lemma update_result_absent:
  "update_exec_raises e = None \<Longrightarrow> get_by_job tbl jid = None
     \<Longrightarrow> update_result e tbl jid t s = Inr tbl"
  by (simp add: update_result_def)

lemma update_result_present:
  assumes "update_exec_raises e = None" and "update_commit_raises e = None"
    and "get_by_job tbl jid = Some rec" and "distinct (map id_pk tbl)"
  shows "\<exists>i<length tbl. tbl ! i = rec \<and> (\<forall>k<i. job_id (tbl ! k) \<noteq> Some jid)
           \<and> update_result e tbl jid t s
               = Inr (tbl[i := rec\<lparr> analysis_text := Some t, status := s,
                                     updated_at := clock e \<rparr>])"
proof -
  from find_first_index [OF assms(3) [unfolded get_by_job_def]] obtain i where
    i: "i < length tbl" "tbl ! i = rec" "\<forall>k<i. job_id (tbl ! k) \<noteq> Some jid"
    by blast
  have "update_result e tbl jid t s
          = Inr (map (\<lambda>r. if id_pk r = id_pk (tbl ! i)
                          then r\<lparr> analysis_text := Some t, status := s, updated_at := clock e \<rparr>
                          else r) tbl)"
    using assms(1,2,3) i(2) by (simp add: update_result_def)
  also have "\<dots> = Inr (tbl[i := (tbl ! i)\<lparr> analysis_text := Some t, status := s,
                                          updated_at := clock e \<rparr>])"
    using map_update_one [OF assms(4) i(1)] by simp
  finally show ?thesis using i by auto
qed

text \<open>
  Claim C5, as the spec states it: \<open>update_result\<close> never raises. The function has no
  handler of its own, so an exception of the storage engine leaves it: with the ledger
  file locked the commit raises and so does \<open>update_result\<close>, for a job that has a row;
  with the table missing the select raises and so does \<open>update_result\<close>, for a job that
  has no row. \<open>run_crew\<close> catches \<open>ImportError\<close> only and passes the exception on, and the
  worker task turns it into a failed job although the crew has returned its report.
\<close>

theorem update_result_raises_counterexample:
  "update_result env_locked ledger3 ''j1'' ''report'' ''finished'' = Inl ''database is locked''
   \<and> get_by_job ledger3 ''j9'' = None
   \<and> update_result env_no_table ledger3 ''j9'' ''report'' ''finished''
       = Inl ''no such table: analysis''
   \<and> run_crew env_locked ''q'' ''data/a.pdf'' (Some ''j1'') ledger3
       = (Inl ''database is locked'', ledger3)
   \<and> snd (snd (run_crew_task env_locked ''j1'' ''q'' ''data/a.pdf''
                  (world1\<lparr> db := ledger3 \<rparr>)))
       = Inl (RuntimeError ''Analysis failed: database is locked'')"
proof -
  have u: "update_result env_locked ledger3 ''j1'' ''report'' ''finished''
             = Inl ''database is locked''"
    by (simp add: update_result_def env_locked_def env0_def ledger3_def get_by_job_def)
  have g: "get_by_job ledger3 ''j9'' = None"
    by (simp add: ledger3_def get_by_job_def)
  have n: "update_result env_no_table ledger3 ''j9'' ''report'' ''finished''
             = Inl ''no such table: analysis''"
    by (simp add: update_result_def env_no_table_def env0_def)
  have e: "import_db env_locked" "import_worker_task env_locked = None"
    "import_tools env_locked = None"
    "kickoff env_locked q p = Inr \<lparr> truthy = True, str_result = ''report'' \<rparr>" for q p
    by (simp_all add: env_locked_def env0_def)
  have r: "run_crew env_locked ''q'' ''data/a.pdf'' (Some ''j1'') ledger3
             = (Inl ''database is locked'', ledger3)"
    by (simp add: run_crew_def e u)
  have f: "access_R_OK env_locked = access_R_OK env0" "open_raises env_locked = open_raises env0"
    "PdfReader env_locked = PdfReader env0"
    by (simp_all add: env_locked_def)
  have rd: "read_data_tool env_locked fs p = read_data_tool env0 fs p" for fs p
    unfolding read_data_tool_def f by (rule refl)
  have w: "files (world1\<lparr> db := ledger3 \<rparr>) ''data/a.pdf'' = Some ''%PDF''"
    "files (world1\<lparr> db := ledger3 \<rparr>) = [''data/a.pdf'' \<mapsto> ''%PDF'']"
    "db (world1\<lparr> db := ledger3 \<rparr>) = ledger3"
    by (simp_all add: world1_def)
  have dc: "document_check env_locked (world1\<lparr> db := ledger3 \<rparr>) ''data/a.pdf'' = None"
    by (simp add: document_check_def e w rd read_data_tool_env0 startswith_def)
  have sq: "strip ''q'' = ''q''" by (simp add: strip_def is_space_def)
  have b: "snd (snd (run_crew_task_body env_locked ''j1'' ''q'' ''data/a.pdf''
                       (world1\<lparr> db := ledger3 \<rparr>)))
             = Inl (RuntimeError ''Analysis failed: database is locked'')"
    unfolding run_crew_task_body_def Let_def
    by (simp add: sq e w dc r)
  have t: "snd (snd (run_crew_task env_locked ''j1'' ''q'' ''data/a.pdf''
                       (world1\<lparr> db := ledger3 \<rparr>)))
             = Inl (RuntimeError ''Analysis failed: database is locked'')"
    using b unfolding run_crew_task_def
    by (auto simp: Let_def split: prod.splits sum.splits exn.splits)
  from u g n r t show ?thesis by blast
qed

text \<open>
  Claim C5, amended. \<open>update_result\<close> raises exactly when the storage engine does: when
  the select raises, or when a row of the job exists and the commit raises; the exception
  is the one of the storage engine. The absence of a row never makes it raise: when the
  select succeeds and the ledger holds no row of the job, it returns and the table is as it
  was. When the select and the commit succeed and the ledger holds a row of the job, it
  returns the table in which the first row of that job has \<open>analysis_text\<close> and \<open>status\<close>
  set and \<open>updated_at\<close> refreshed; the other columns of that row and all other rows are as
  they were (the primary keys being distinct).
\<close>

theorem update_result_raises_only_storage_errors:
  "((\<exists>m. update_result e tbl jid t s = Inl m) =
      (update_exec_raises e \<noteq> None
       \<or> (get_by_job tbl jid \<noteq> None \<and> update_commit_raises e \<noteq> None)))
   \<and> (\<forall>m. update_result e tbl jid t s = Inl m \<longrightarrow>
          update_exec_raises e = Some m \<or> update_commit_raises e = Some m)
   \<and> (update_exec_raises e = None \<and> get_by_job tbl jid = None \<longrightarrow>
          update_result e tbl jid t s = Inr tbl)
   \<and> (\<forall>rec. update_exec_raises e = None \<and> update_commit_raises e = None
            \<and> get_by_job tbl jid = Some rec \<and> distinct (map id_pk tbl) \<longrightarrow>
          (\<exists>i<length tbl. tbl ! i = rec \<and> (\<forall>k<i. job_id (tbl ! k) \<noteq> Some jid)
              \<and> update_result e tbl jid t s
                  = Inr (tbl[i := rec\<lparr> analysis_text := Some t, status := s,
                                        updated_at := clock e \<rparr>]))
          \<and> (\<exists>tbl1. update_result e tbl jid t s = Inr tbl1
                \<and> get_by_job tbl1 jid
                    = Some (rec\<lparr> analysis_text := Some t, status := s,
                                 updated_at := clock e \<rparr>)))"
proof -
  have a: "\<forall>m. update_result e tbl jid t s = Inl m \<longrightarrow>
          update_exec_raises e = Some m \<or> update_commit_raises e = Some m"
    by (auto simp: update_result_def split: option.splits)
  have b: "update_exec_raises e = None \<and> get_by_job tbl jid = None \<longrightarrow>
          update_result e tbl jid t s = Inr tbl"
    by (simp add: update_result_absent)
  have c: "\<exists>tbl1. update_result e tbl jid t s = Inr tbl1
                \<and> get_by_job tbl1 jid
                    = Some (rec\<lparr> analysis_text := Some t, status := s,
                                 updated_at := clock e \<rparr>)"
    if "update_exec_raises e = None" "update_commit_raises e = None"
      "get_by_job tbl jid = Some rec" for rec
    using that find_map_update [OF that(3) [unfolded get_by_job_def],
                 where t = t and s = s and now = "clock e"]
    by (simp add: update_result_def get_by_job_def)
  show ?thesis
    using update_result_raises_iff [of e tbl jid t s] a b c update_result_present
    by blast
qed

lemma ledger3_facts:
  "distinct (map id_pk ledger3)" "length ledger3 = 3"
  "get_by_job ledger3 ''j9'' = None"
  "get_by_job ledger3 ''j1''
     = Some \<lparr> id_pk = 2, job_id = Some ''j1'', filename = ''a.pdf'', query = ''q'',
              file_path = ''data/a.pdf'', status = ''queued'', analysis_text = None,
              created_at = 1, updated_at = 1 \<rparr>"
  by (simp_all add: ledger3_def get_by_job_def)

lemma storage_fields:
  "update_exec_raises env0 = None" "update_commit_raises env0 = None"
  "update_exec_raises env_locked = None"
  "update_commit_raises env_locked = Some ''database is locked''"
  by (simp_all add: env0_def env_locked_def)

theorem update_result_raises_only_storage_errors_witness:
  "distinct (map id_pk ledger3)
   \<and> get_by_job ledger3 ''j9'' = None
   \<and> update_result env0 ledger3 ''j9'' ''report'' ''finished'' = Inr ledger3
   \<and> get_by_job ledger3 ''j1''
       = Some \<lparr> id_pk = 2, job_id = Some ''j1'', filename = ''a.pdf'', query = ''q'',
                file_path = ''data/a.pdf'', status = ''queued'', analysis_text = None,
                created_at = 1, updated_at = 1 \<rparr>
   \<and> update_result env0 ledger3 ''j1'' ''report'' ''finished''
       = Inr [\<lparr> id_pk = 1, job_id = Some ''j0'', filename = ''z.pdf'', query = ''q'',
                file_path = ''data/z.pdf'', status = ''queued'', analysis_text = None,
                created_at = 0, updated_at = 0 \<rparr>,
              \<lparr> id_pk = 2, job_id = Some ''j1'', filename = ''a.pdf'', query = ''q'',
                file_path = ''data/a.pdf'', status = ''finished'',
                analysis_text = Some ''report'', created_at = 1, updated_at = 7 \<rparr>,
              \<lparr> id_pk = 3, job_id = Some ''j1'', filename = ''b.pdf'', query = ''q'',
                file_path = ''data/b.pdf'', status = ''queued'', analysis_text = None,
                created_at = 2, updated_at = 2 \<rparr>]
   \<and> (\<exists>m. update_result env_locked ledger3 ''j1'' ''report'' ''finished'' = Inl m)
   \<and> update_result env_locked ledger3 ''j9'' ''report'' ''finished'' = Inr ledger3"
proof -
  note a = update_result_raises_only_storage_errors
             [of env0 ledger3 "''j9''" "''report''" "''finished''"]
  note p = update_result_raises_only_storage_errors
             [of env0 ledger3 "''j1''" "''report''" "''finished''"]
  note l = update_result_raises_only_storage_errors
             [of env_locked ledger3 "''j1''" "''report''" "''finished''"]
  note n = update_result_raises_only_storage_errors
             [of env_locked ledger3 "''j9''" "''report''" "''finished''"]
  from a storage_fields(1) ledger3_facts(3)
  have a1: "update_result env0 ledger3 ''j9'' ''report'' ''finished'' = Inr ledger3"
    by blast
  from p storage_fields(1,2) ledger3_facts(1,4)
  obtain i where i: "i < length ledger3"
    "ledger3 ! i = \<lparr> id_pk = 2, job_id = Some ''j1'', filename = ''a.pdf'', query = ''q'',
              file_path = ''data/a.pdf'', status = ''queued'', analysis_text = None,
              created_at = 1, updated_at = 1 \<rparr>"
    "update_result env0 ledger3 ''j1'' ''report'' ''finished''
       = Inr (ledger3[i := \<lparr> id_pk = 2, job_id = Some ''j1'', filename = ''a.pdf'', query = ''q'',
              file_path = ''data/a.pdf'', status = ''queued'', analysis_text = None,
              created_at = 1, updated_at = 1 \<rparr>\<lparr> analysis_text := Some ''report'',
                 status := ''finished'', updated_at := clock env0 \<rparr>])"
    by blast
  from i(1) have "i = 0 \<or> i = 1 \<or> i = 2" by (auto simp: ledger3_facts(2))
  with i(2) have i1: "i = 1" by (auto simp: ledger3_def)
  have c: "clock env0 = 7" by (simp add: env0_def)
  have p1: "update_result env0 ledger3 ''j1'' ''report'' ''finished''
       = Inr [\<lparr> id_pk = 1, job_id = Some ''j0'', filename = ''z.pdf'', query = ''q'',
                file_path = ''data/z.pdf'', status = ''queued'', analysis_text = None,
                created_at = 0, updated_at = 0 \<rparr>,
              \<lparr> id_pk = 2, job_id = Some ''j1'', filename = ''a.pdf'', query = ''q'',
                file_path = ''data/a.pdf'', status = ''finished'',
                analysis_text = Some ''report'', created_at = 1, updated_at = 7 \<rparr>,
              \<lparr> id_pk = 3, job_id = Some ''j1'', filename = ''b.pdf'', query = ''q'',
                file_path = ''data/b.pdf'', status = ''queued'', analysis_text = None,
                created_at = 2, updated_at = 2 \<rparr>]"
    unfolding i(3) i1 c by (simp add: ledger3_def)
  from l storage_fields(3,4) ledger3_facts(4)
  have l1: "\<exists>m. update_result env_locked ledger3 ''j1'' ''report'' ''finished'' = Inl m"
    by simp
  from n storage_fields(3) ledger3_facts(3)
  have n1: "update_result env_locked ledger3 ''j9'' ''report'' ''finished'' = Inr ledger3"
    by blast
  from ledger3_facts(1,3,4) a1 p1 l1 n1 show ?thesis by blast
qed

section \<open>Properties of the document reader\<close>

text \<open>
  The cases of the claim that the code gets right: for a missing or unreadable file, an
  empty or oversized one, and an encrypted PDF that can be opened, the returned text begins
  with \<open>Error:\<close>.
\<close>

lemma listed_errors_start_with_Error:
  assumes "fs path = None \<or> \<not> access_R_OK e path
           \<or> (\<exists>d. fs path = Some d \<and> (length d = 0 \<or> length d > 50 * 1024 * 1024))
           \<or> (\<exists>d ps. fs path = Some d \<and> open_raises e path = None
                 \<and> PdfReader e d = Pdf True ps)"
  shows "startswith (read_data_tool e fs path) ''Error:''"
  using assms
  by (auto simp: read_data_tool_def startswith_def split: option.splits)

text \<open>
  The report of a PDF with at least one page is never blank, since every page adds an
  entry that begins with \<open>Page\<close>, also a page without text: the test that guards the
  message \<open>Error: No readable content found\<close> cannot succeed.
\<close>

lemma strip_empty_iff: "strip s = [] \<longleftrightarrow> (\<forall>c \<in> set s. is_space c)"
proof
  assume "strip s = []"
  then have d: "dropWhile is_space (rev (dropWhile is_space s)) = []"
    by (simp add: strip_def)
  show "\<forall>c \<in> set s. is_space c"
  proof (cases "dropWhile is_space s")
    case Nil
    then show ?thesis by (simp add: dropWhile_eq_Nil_conv)
  next
    case (Cons a as)
    then have "\<not> is_space a" using hd_dropWhile [of is_space s] by simp
    moreover from d have "\<forall>c \<in> set (dropWhile is_space s). is_space c"
      by (simp add: dropWhile_eq_Nil_conv)
    ultimately show ?thesis using Cons by simp
  qed
next
  assume "\<forall>c \<in> set s. is_space c"
  then have e: "dropWhile is_space s = []" by (simp add: dropWhile_eq_Nil_conv)
  show "strip s = []" unfolding strip_def e by simp
qed

lemma page_report_not_blank: "ps \<noteq> [] \<Longrightarrow> strip (page_report k ps) \<noteq> []"
proof (cases ps)
  case Nil
  then show "ps \<noteq> [] \<Longrightarrow> ?thesis" by simp
next
  case (Cons p rest)
  have "CHR ''P'' \<in> set (page_entry k p)"
    by (auto simp: page_entry_def split: page.splits)
  moreover have "\<not> is_space CHR ''P''" by (simp add: is_space_def)
  ultimately show ?thesis using Cons by (auto simp: strip_empty_iff)
qed

text \<open>
  Claim C9: \<open>read_data_tool\<close> is a total function into the strings, and for a PDF with no
  extractable text the returned text begins with \<open>Error:\<close>. For a readable PDF of one page
  whose text is empty the code returns the report of that page under a warning, not an
  error.
\<close>

theorem no_text_pdf_not_an_error:
  "read_data_tool env_scanned [''data/a.pdf'' \<mapsto> ''%PDF''] ''data/a.pdf''
     = ''Warning: This document may not contain typical financial content.\<newline>\<newline>Page 1: [No extractable text found]\<newline>\<newline>''
   \<and> \<not> startswith (read_data_tool env_scanned [''data/a.pdf'' \<mapsto> ''%PDF''] ''data/a.pdf'')
         ''Error:''"
  by (simp add: read_data_tool_def env_scanned_def env0_def page_entry_def str_nat_digit
        string_eval financial_keywords_def)

section \<open>Properties of the submission endpoints\<close>

lemma invalid_upload_rejected:
  assumes "invalid_upload file"
  shows "\<exists>detail. validate_upload file = Inl (HTTPException 400 detail)"
  using assms
  by (auto simp: invalid_upload_def validate_upload_def endswith_def split: sum.splits)

text \<open>
  Claim C4, amended. An upload that fails validation is rejected by both submission
  endpoints before anything is done: no event is performed and the state is unchanged, so
  no document is written and no task is enqueued. The status is 400 when the availability
  checks at the head of the endpoint pass (the AI key is configured and, for the
  asynchronous endpoint, Celery is available) and the 503 of those checks otherwise.
\<close>

theorem invalid_upload_consumes_nothing:
  assumes "invalid_upload file"
  shows "fst (analyze_document e file q w) = []
       \<and> fst (snd (analyze_document e file q w)) = w
       \<and> fst (analyze_document_async e file q w) = []
       \<and> fst (snd (analyze_document_async e file q w)) = w
       \<and> status_code (snd (snd (analyze_document e file q w)))
           = (if has_ai e then 400 else 503)
       \<and> status_code (snd (snd (analyze_document_async e file q w)))
           = (if has_celery e \<and> has_ai e then 400 else 503)"
proof -
  from invalid_upload_rejected [OF assms] obtain detail where
    v: "validate_upload file = Inl (HTTPException 400 detail)" by blast
  show ?thesis
    by (simp add: analyze_document_def analyze_document_async_def async_submit_def v)
qed

lemma invalid_examples:
  "invalid_upload upload_empty" "invalid_upload upload_big" "invalid_upload upload_txt"
  by (simp_all add: invalid_upload_def upload_empty_def upload_big_def upload_txt_def
        endswith_def lower_def lower_char_def upper_letters_def lower_letters_def)

theorem invalid_upload_consumes_nothing_witness:
  "invalid_upload upload_empty \<and> invalid_upload upload_big \<and> invalid_upload upload_txt
   \<and> analyze_document env0 upload_empty ''q'' world0
       = ([], world0, HTTPException 400 ''Error reading uploaded file: 400: Uploaded file is empty'')
   \<and> fst (analyze_document_async env0 upload_big ''q'' world0) = []
   \<and> fst (snd (analyze_document_async env0 upload_big ''q'' world0)) = world0
   \<and> status_code (snd (snd (analyze_document_async env0 upload_big ''q'' world0))) = 400
   \<and> fst (analyze_document env0 upload_txt ''q'' world0) = []
   \<and> status_code (snd (snd (analyze_document env0 upload_txt ''q'' world0))) = 400"
proof -
  have e: "has_ai env0" "has_celery env0" by (simp_all add: env0_def)
  have v: "validate_upload upload_empty
             = Inl (HTTPException 400 ''Error reading uploaded file: 400: Uploaded file is empty'')"
    by (simp add: validate_upload_def upload_empty_def endswith_def lower_def lower_char_def
          upper_letters_def lower_letters_def str_http_def)
       (simp add: str_nat.simps)
  have a: "analyze_document env0 upload_empty ''q'' world0
       = ([], world0, HTTPException 400 ''Error reading uploaded file: 400: Uploaded file is empty'')"
    by (simp add: analyze_document_def e v)
  show ?thesis
    using invalid_upload_consumes_nothing [OF invalid_examples(1), of env0 "''q''" world0]
      invalid_upload_consumes_nothing [OF invalid_examples(2), of env0 "''q''" world0]
      invalid_upload_consumes_nothing [OF invalid_examples(3), of env0 "''q''" world0]
    by (simp add: invalid_examples a e)
qed

text \<open>
  Claim C4, as the spec states it: every upload that fails validation is rejected with
  status 400. The availability checks come first: an empty upload gets 503 from the
  synchronous endpoint when the AI key is not configured, and from the asynchronous one
  when Celery is not available.
\<close>

theorem unavailable_service_counterexample:
  "invalid_upload upload_empty
   \<and> status_code (snd (snd (analyze_document (env0\<lparr> has_ai := False \<rparr>) upload_empty ''q'' world0)))
       = 503
   \<and> status_code (snd (snd (analyze_document_async (env0\<lparr> has_celery := False \<rparr>) upload_empty ''q''
                               world0))) = 503"
  by (simp add: invalid_examples analyze_document_def analyze_document_async_def
        async_submit_def env0_def)

lemma cleanup_events: "fst (cleanup e p w) = (if files w p = None then [] else [Remove p])"
  by (simp add: cleanup_def)

text \<open>
  When the upload is valid, the file is written and the crew modules are imported, an
  exception of the crew reaches the client as the response that \<open>classify_error\<close> builds
  from its text: the handlers and the \<open>finally\<close> clause around it leave it as it is.
\<close>

lemma engine_error_response:
  assumes "has_ai e" and "validate_upload file = Inr contents" and "write_raises e = None"
    and "import_worker_task e = None"
    and "kickoff e (strip (if blank q then DEFAULT_QUERY else q)) (document_path e) = Inl m"
  shows "snd (snd (analyze_document e file q w)) = classify_error m"
  using assms
  by (simp add: analyze_document_def sync_body_def run_crew_def Let_def cleanup_def
        split: prod.splits)

text \<open>
  Claim C6: for an exception raised by the call of the analysis in the synchronous
  endpoint, the status of the response is a function of the text of the exception: 429
  when it has the rate-limit phrasing; otherwise 503 when it has the authentication
  phrasing; otherwise 400 when it contains the phrase of a document without readable
  content; and 500 otherwise. The cases are tried in this order.
\<close>

theorem engine_error_status:
  assumes "has_ai e" and "validate_upload file = Inr contents" and "write_raises e = None"
    and "import_worker_task e = None"
    and "kickoff e (strip (if blank q then DEFAULT_QUERY else q)) (document_path e) = Inl m"
  shows "status_code (snd (snd (analyze_document e file q w)))
           = (if rate_limit_phrasing m then 429
              else if auth_phrasing m then 503
              else if no_content_phrasing m then 400
              else 500)"
  unfolding engine_error_response [OF assms]
  by (simp add: classify_error_def)


lemma phrasing_examples:
  "rate_limit_phrasing ''Error code: 429 RESOURCE_EXHAUSTED''"
  "rate_limit_phrasing ''Rate limit hit: unauthorized''"
  "auth_phrasing ''Rate limit hit: unauthorized''"
  "\<not> rate_limit_phrasing ''Invalid API key''"
  "auth_phrasing ''Invalid API key''"
  "\<not> rate_limit_phrasing ''No readable content found''"
  "\<not> auth_phrasing ''No readable content found''"
  "no_content_phrasing ''No readable content found''"
  "\<not> rate_limit_phrasing ''boom''"
  "\<not> auth_phrasing ''boom''"
  "\<not> no_content_phrasing ''boom''"
  by (simp_all add: rate_limit_phrasing_def auth_phrasing_def no_content_phrasing_def
        startswith_def lower_def lower_char_def upper_letters_def lower_letters_def)

lemma env_raises_fields:
  "has_ai (env_raises m)" "write_raises (env_raises m) = None"
  "import_worker_task (env_raises m) = None" "kickoff (env_raises m) q p = Inl m"
  by (simp_all add: env_raises_def env0_def)

lemma validate_upload0: "validate_upload upload0 = Inr ''%PDF''"
  by (simp add: validate_upload_def upload0_def endswith_def lower_def lower_char_def
        upper_letters_def lower_letters_def)

theorem engine_error_status_witness:
  "validate_upload upload0 = Inr ''%PDF''
   \<and> status_code (snd (snd (analyze_document (env_raises ''Error code: 429 RESOURCE_EXHAUSTED'')
                               upload0 ''q'' world0))) = 429
   \<and> status_code (snd (snd (analyze_document (env_raises ''Rate limit hit: unauthorized'')
                               upload0 ''q'' world0))) = 429
   \<and> status_code (snd (snd (analyze_document (env_raises ''Invalid API key'')
                               upload0 ''q'' world0))) = 503
   \<and> status_code (snd (snd (analyze_document (env_raises ''No readable content found'')
                               upload0 ''q'' world0))) = 400
   \<and> status_code (snd (snd (analyze_document (env_raises ''boom'') upload0 ''q'' world0))) = 500"
  using engine_error_status [OF env_raises_fields(1) validate_upload0 env_raises_fields(2)
          env_raises_fields(3) env_raises_fields(4),
          of "''Error code: 429 RESOURCE_EXHAUSTED''" "''q''" world0]
    engine_error_status [OF env_raises_fields(1) validate_upload0 env_raises_fields(2)
          env_raises_fields(3) env_raises_fields(4),
          of "''Rate limit hit: unauthorized''" "''q''" world0]
    engine_error_status [OF env_raises_fields(1) validate_upload0 env_raises_fields(2)
          env_raises_fields(3) env_raises_fields(4), of "''Invalid API key''" "''q''" world0]
    engine_error_status [OF env_raises_fields(1) validate_upload0 env_raises_fields(2)
          env_raises_fields(3) env_raises_fields(4),
          of "''No readable content found''" "''q''" world0]
    engine_error_status [OF env_raises_fields(1) validate_upload0 env_raises_fields(2)
          env_raises_fields(3) env_raises_fields(4), of "''boom''" "''q''" world0]
  by (simp add: phrasing_examples validate_upload0)

lemma default_query_facts:
  "\<not> blank DEFAULT_QUERY" "strip DEFAULT_QUERY = DEFAULT_QUERY"
  by (simp_all add: DEFAULT_QUERY_def blank_def strip_def is_space_def)

lemma body_passes_validation:
  assumes "\<not> blank q" and "p \<noteq> []" and "files w p \<noteq> None"
  shows "progress_state 10 ''Validation complete, loading analysis tools...''
           \<in> set (fst (run_crew_task_body e tid q p w))"
  using assms
  unfolding run_crew_task_body_def Let_def blank_def
  by (auto split: option.splits exn.splits sum.splits prod.splits)

lemma run_keeps_body_events:
  "set (fst (run_crew_task_body e tid q p w)) \<subseteq> set (fst (run_crew_task e tid q p w))"
proof -
  obtain t w1 out where b: "run_crew_task_body e tid q p w = (t, w1, out)"
    by (cases "run_crew_task_body e tid q p w") auto
  show ?thesis
    unfolding run_crew_task_def b
    by (cases out) (auto simp: Let_def split: exn.splits prod.splits)
qed

text \<open>
  Claim C8: a submission whose query is empty or consists of white space is processed as
  the submission with the canned default prompt, by both endpoints, and is not rejected for
  its query. When the upload is valid and the steps before it succeed, the crew is called,
  or the task is enqueued, with that prompt. When the crew returns a result, the
  synchronous endpoint answers 200 with status \<open>success\<close>, the default prompt as the query
  and the text of the result as the analysis. When the queue accepts the task, the
  asynchronous endpoint answers 200 with status \<open>queued\<close>, the work item and the ledger
  row carry the default prompt, and the worker task that takes the work item passes its
  check of the query and goes on to load the analysis.
\<close>

theorem blank_query_defaults:
  assumes "blank q"
  shows "analyze_document e file q w = analyze_document e file DEFAULT_QUERY w
       \<and> analyze_document_async e file q w = analyze_document_async e file DEFAULT_QUERY w
       \<and> (\<forall>contents. has_ai e \<and> validate_upload file = Inr contents \<and> write_raises e = None
              \<and> import_worker_task e = None \<longrightarrow>
            Kickoff DEFAULT_QUERY (document_path e) \<in> set (fst (analyze_document e file q w)))
       \<and> (\<forall>contents task_id. has_celery e \<and> has_ai e \<and> validate_upload file = Inr contents
              \<and> write_raises e = None \<and> delay e = Inr task_id \<longrightarrow>
            Enqueue task_id DEFAULT_QUERY (document_path e)
              \<in> set (fst (analyze_document_async e file q w)))
       \<and> (\<forall>contents result. has_ai e \<and> validate_upload file = Inr contents
              \<and> write_raises e = None \<and> import_worker_task e = None
              \<and> kickoff e DEFAULT_QUERY (document_path e) = Inr result \<and> truthy result \<longrightarrow>
            fst (analyze_document e file q w)
              = [Write (document_path e), Kickoff DEFAULT_QUERY (document_path e),
                 Remove (document_path e)]
            \<and> snd (snd (analyze_document e file q w))
              = JSONResponse
                  [(''status'', VStr ''success''),
                   (''query'', VStr DEFAULT_QUERY),
                   (''analysis'', VStr (str_result result)),
                   (''file_processed'', VStr (upload_filename file)),
                   (''file_size_bytes'', VNat (length contents)),
                   (''processing_mode'', VStr ''synchronous'')]
            \<and> status_code (snd (snd (analyze_document e file q w))) = 200)
       \<and> (\<forall>contents task_id. has_celery e \<and> has_ai e \<and> validate_upload file = Inr contents
              \<and> write_raises e = None \<and> delay e = Inr task_id \<and> task_id \<noteq> [] \<longrightarrow>
            fst (analyze_document_async e file q w)
              = [Write (document_path e), Enqueue task_id DEFAULT_QUERY (document_path e)]
                @ (if has_db e \<and> save_new_raises e = None then [SaveNew task_id] else [])
            \<and> queue (fst (snd (analyze_document_async e file q w)))
              = queue w @ [(task_id, DEFAULT_QUERY, document_path e)]
            \<and> files (fst (snd (analyze_document_async e file q w))) (document_path e)
              = Some contents
            \<and> db (fst (snd (analyze_document_async e file q w)))
              = (if has_db e \<and> save_new_raises e = None
                 then db w @ [\<lparr> id_pk = next_id (db w), job_id = Some task_id,
                                 filename = upload_filename file, query = DEFAULT_QUERY,
                                 file_path = document_path e, status = ''queued'',
                                 analysis_text = None, created_at = clock e,
                                 updated_at = clock e \<rparr>]
                 else db w)
            \<and> snd (snd (analyze_document_async e file q w))
              = JSONResponse
                  [(''status'', VStr ''queued''),
                   (''task_id'', VStr task_id),
                   (''file_processed'', VStr (upload_filename file)),
                   (''file_size_bytes'', VNat (length contents)),
                   (''message'', VStr ''Task submitted successfully to background processor''),
                   (''processing_mode'', VStr ''asynchronous''),
                   (''status_endpoint'', VStr (''/task-status/'' @ task_id))]
            \<and> status_code (snd (snd (analyze_document_async e file q w))) = 200
            \<and> progress_state 10 ''Validation complete, loading analysis tools...''
                \<in> set (fst (run_crew_task e task_id DEFAULT_QUERY (document_path e)
                               (fst (snd (analyze_document_async e file q w))))))"
proof -
  have s: "sync_body e file q c p w = sync_body e file DEFAULT_QUERY c p w" for c p
    using assms by (simp add: sync_body_def default_query_facts)
  have a: "async_submit e file q w = async_submit e file DEFAULT_QUERY w"
    using assms by (simp add: async_submit_def default_query_facts)
  have k: "Kickoff DEFAULT_QUERY (document_path e) \<in> set (fst (analyze_document e file q w))"
    if "has_ai e" "validate_upload file = Inr c" "write_raises e = None"
      "import_worker_task e = None" for c
    using that assms
    by (auto simp: analyze_document_def sync_body_def default_query_facts Let_def
          split: prod.splits sum.splits)
  have q: "Enqueue t DEFAULT_QUERY (document_path e)
             \<in> set (fst (analyze_document_async e file q w))"
    if "has_celery e" "has_ai e" "validate_upload file = Inr c" "write_raises e = None"
      "delay e = Inr t" for c t
    using that assms
    by (auto simp: analyze_document_async_def async_submit_def async_record_def
          default_query_facts Let_def split: prod.splits sum.splits)
  have eq1: "analyze_document e file q w = analyze_document e file DEFAULT_QUERY w"
    by (simp add: analyze_document_def s split: sum.splits)
  have eq2: "analyze_document_async e file q w = analyze_document_async e file DEFAULT_QUERY w"
    by (simp add: analyze_document_async_def a)
  have sub: "async_submit e file q w =
       ([Write (document_path e), Enqueue t DEFAULT_QUERY (document_path e)],
        w\<lparr> files := (files w)(document_path e \<mapsto> c),
           queue := queue w @ [(t, DEFAULT_QUERY, document_path e)] \<rparr>,
        Inr (t, DEFAULT_QUERY, document_path e, length c))"
    if "has_celery e" "has_ai e" "validate_upload file = Inr c" "write_raises e = None"
      "delay e = Inr t" "t \<noteq> []" for c t
    using that assms by (simp add: async_submit_def default_query_facts Let_def)
  have ase: "fst (analyze_document_async e file q w)
              = [Write (document_path e), Enqueue t DEFAULT_QUERY (document_path e)]
                @ (if has_db e \<and> save_new_raises e = None then [SaveNew t] else [])"
    and asr: "snd (snd (analyze_document_async e file q w))
              = JSONResponse
                  [(''status'', VStr ''queued''),
                   (''task_id'', VStr t),
                   (''file_processed'', VStr (upload_filename file)),
                   (''file_size_bytes'', VNat (length c)),
                   (''message'', VStr ''Task submitted successfully to background processor''),
                   (''processing_mode'', VStr ''asynchronous''),
                   (''status_endpoint'', VStr (''/task-status/'' @ t))]"
    and asq: "queue (fst (snd (analyze_document_async e file q w)))
                = queue w @ [(t, DEFAULT_QUERY, document_path e)]"
    and asf: "files (fst (snd (analyze_document_async e file q w))) (document_path e) = Some c"
    and asd: "db (fst (snd (analyze_document_async e file q w)))
              = (if has_db e \<and> save_new_raises e = None
                 then db w @ [\<lparr> id_pk = next_id (db w), job_id = Some t,
                                 filename = upload_filename file, query = DEFAULT_QUERY,
                                 file_path = document_path e, status = ''queued'',
                                 analysis_text = None, created_at = clock e,
                                 updated_at = clock e \<rparr>]
                 else db w)"
    if "has_celery e" "has_ai e" "validate_upload file = Inr c" "write_raises e = None"
      "delay e = Inr t" "t \<noteq> []" for c t
    using sub [OF that]
    by (simp_all add: analyze_document_async_def async_record_def default_query_facts
          save_new_def Let_def)
  have dp: "document_path e \<noteq> []" by (simp add: document_path_def)
  have wk: "progress_state 10 ''Validation complete, loading analysis tools...''
                \<in> set (fst (run_crew_task e t DEFAULT_QUERY (document_path e)
                               (fst (snd (analyze_document_async e file q w)))))"
    if "has_celery e" "has_ai e" "validate_upload file = Inr c" "write_raises e = None"
      "delay e = Inr t" "t \<noteq> []" for c t
  proof -
    have "files (fst (snd (analyze_document_async e file q w))) (document_path e) \<noteq> None"
      using asf [OF that] by simp
    from body_passes_validation [OF default_query_facts(1) dp this]
      run_keeps_body_events
    show ?thesis by blast
  qed
  have c5: "fst (analyze_document e file q w)
              = [Write (document_path e), Kickoff DEFAULT_QUERY (document_path e),
                 Remove (document_path e)]
            \<and> snd (snd (analyze_document e file q w))
              = JSONResponse
                  [(''status'', VStr ''success''),
                   (''query'', VStr DEFAULT_QUERY),
                   (''analysis'', VStr (str_result r)),
                   (''file_processed'', VStr (upload_filename file)),
                   (''file_size_bytes'', VNat (length c)),
                   (''processing_mode'', VStr ''synchronous'')]
            \<and> status_code (snd (snd (analyze_document e file q w))) = 200"
    if "has_ai e" "validate_upload file = Inr c" "write_raises e = None"
      "import_worker_task e = None" "kickoff e DEFAULT_QUERY (document_path e) = Inr r"
      "truthy r" for c r
    using that assms
    by (simp_all add: analyze_document_def sync_body_def run_crew_def default_query_facts
          Let_def cleanup_def)
  have c6: "fst (analyze_document_async e file q w)
              = [Write (document_path e), Enqueue t DEFAULT_QUERY (document_path e)]
                @ (if has_db e \<and> save_new_raises e = None then [SaveNew t] else [])
            \<and> snd (snd (analyze_document_async e file q w))
              = JSONResponse
                  [(''status'', VStr ''queued''),
                   (''task_id'', VStr t),
                   (''file_processed'', VStr (upload_filename file)),
                   (''file_size_bytes'', VNat (length c)),
                   (''message'', VStr ''Task submitted successfully to background processor''),
                   (''processing_mode'', VStr ''asynchronous''),
                   (''status_endpoint'', VStr (''/task-status/'' @ t))]
            \<and> status_code (snd (snd (analyze_document_async e file q w))) = 200"
    if "has_celery e" "has_ai e" "validate_upload file = Inr c" "write_raises e = None"
      "delay e = Inr t" "t \<noteq> []" for c t
    using ase [OF that] asr [OF that] by simp
  show ?thesis
    using eq1 eq2 k q c5 c6 asq asf asd wk by blast
qed

lemma env0_fields:
  "has_ai env0" "has_celery env0" "has_db env0" "write_raises env0 = None"
  "import_worker_task env0 = None" "delay env0 = Inr ''t1''" "save_new_raises env0 = None"
  "document_path env0 = ''data/financial_document_u1.pdf''" "remove_raises env0 = False"
  "clock env0 = 7" "import_db env0 = True"
  "kickoff env0 q p = Inr \<lparr> truthy = True, str_result = ''report'' \<rparr>"
  by (simp_all add: env0_def document_path_def)

lemma blank_spaces: "blank ''   ''"
  by (simp add: blank_def strip_def is_space_def)

theorem blank_query_defaults_witness:
  "blank ''   ''
   \<and> validate_upload upload0 = Inr ''%PDF''
   \<and> analyze_document env0 upload0 ''   '' world0
       = analyze_document env0 upload0 DEFAULT_QUERY world0
   \<and> fst (analyze_document env0 upload0 ''   '' world0)
       = [Write ''data/financial_document_u1.pdf'',
          Kickoff ''Analyze this financial document for investment insights''
            ''data/financial_document_u1.pdf'',
          Remove ''data/financial_document_u1.pdf'']
   \<and> snd (snd (analyze_document env0 upload0 ''   '' world0))
       = JSONResponse
           [(''status'', VStr ''success''),
            (''query'', VStr ''Analyze this financial document for investment insights''),
            (''analysis'', VStr ''report''),
            (''file_processed'', VStr ''a.pdf''),
            (''file_size_bytes'', VNat 4),
            (''processing_mode'', VStr ''synchronous'')]
   \<and> fst (analyze_document_async env0 upload0 ''   '' world0)
       = [Write ''data/financial_document_u1.pdf'',
          Enqueue ''t1'' ''Analyze this financial document for investment insights''
            ''data/financial_document_u1.pdf'',
          SaveNew ''t1'']
   \<and> queue (fst (snd (analyze_document_async env0 upload0 ''   '' world0)))
       = [(''t1'', ''Analyze this financial document for investment insights'',
           ''data/financial_document_u1.pdf'')]
   \<and> map query (db (fst (snd (analyze_document_async env0 upload0 ''   '' world0))))
       = [''Analyze this financial document for investment insights'']
   \<and> status_code (snd (snd (analyze_document_async env0 upload0 ''   '' world0))) = 200
   \<and> progress_state 10 ''Validation complete, loading analysis tools...''
       \<in> set (fst (run_crew_task env0 ''t1''
                      ''Analyze this financial document for investment insights''
                      ''data/financial_document_u1.pdf''
                      (fst (snd (analyze_document_async env0 upload0 ''   '' world0)))))"
proof -
  note t = blank_query_defaults [OF blank_spaces, of env0 upload0 world0]
  have ne: "''t1'' \<noteq> []" by simp
  have tr: "truthy \<lparr> truthy = True, str_result = ''report'' \<rparr>" by simp
  note kk = env0_fields(12) [of DEFAULT_QUERY "document_path env0"]
  have w0: "queue world0 = []" "db world0 = []" by (simp_all add: world0_def)
  have u0: "upload_filename upload0 = ''a.pdf''" by (simp add: upload0_def)
  from t have e1: "analyze_document env0 upload0 ''   '' world0
       = analyze_document env0 upload0 DEFAULT_QUERY world0"
    by blast
  from t env0_fields(1,4,5) validate_upload0 kk tr
  have "fst (analyze_document env0 upload0 ''   '' world0)
          = [Write (document_path env0), Kickoff DEFAULT_QUERY (document_path env0),
             Remove (document_path env0)]"
    by blast
  then have s1: "fst (analyze_document env0 upload0 ''   '' world0)
       = [Write ''data/financial_document_u1.pdf'',
          Kickoff ''Analyze this financial document for investment insights''
            ''data/financial_document_u1.pdf'',
          Remove ''data/financial_document_u1.pdf'']"
    by (simp only: DEFAULT_QUERY_def env0_fields)
  from t env0_fields(1,4,5) validate_upload0 kk tr
  have "snd (snd (analyze_document env0 upload0 ''   '' world0))
          = JSONResponse
              [(''status'', VStr ''success''),
               (''query'', VStr DEFAULT_QUERY),
               (''analysis'', VStr (str_result \<lparr> truthy = True, str_result = ''report'' \<rparr>)),
               (''file_processed'', VStr (upload_filename upload0)),
               (''file_size_bytes'', VNat (length ''%PDF'')),
               (''processing_mode'', VStr ''synchronous'')]"
    by blast
  then have s2: "snd (snd (analyze_document env0 upload0 ''   '' world0))
       = JSONResponse
           [(''status'', VStr ''success''),
            (''query'', VStr ''Analyze this financial document for investment insights''),
            (''analysis'', VStr ''report''),
            (''file_processed'', VStr ''a.pdf''),
            (''file_size_bytes'', VNat 4),
            (''processing_mode'', VStr ''synchronous'')]"
    by (simp add: DEFAULT_QUERY_def u0)
  from t env0_fields(1,2,4,6) validate_upload0 ne
  have "fst (analyze_document_async env0 upload0 ''   '' world0)
          = [Write (document_path env0), Enqueue ''t1'' DEFAULT_QUERY (document_path env0)]
            @ (if has_db env0 \<and> save_new_raises env0 = None then [SaveNew ''t1''] else [])"
    by blast
  then have a1: "fst (analyze_document_async env0 upload0 ''   '' world0)
       = [Write ''data/financial_document_u1.pdf'',
          Enqueue ''t1'' ''Analyze this financial document for investment insights''
            ''data/financial_document_u1.pdf'',
          SaveNew ''t1'']"
    by (simp add: DEFAULT_QUERY_def env0_fields)
  from t env0_fields(1,2,4,6) validate_upload0 ne
  have "queue (fst (snd (analyze_document_async env0 upload0 ''   '' world0)))
          = queue world0 @ [(''t1'', DEFAULT_QUERY, document_path env0)]"
    by blast
  then have a2: "queue (fst (snd (analyze_document_async env0 upload0 ''   '' world0)))
       = [(''t1'', ''Analyze this financial document for investment insights'',
           ''data/financial_document_u1.pdf'')]"
    by (simp add: DEFAULT_QUERY_def env0_fields w0)
  from t env0_fields(1,2,4,6) validate_upload0 ne
  have "db (fst (snd (analyze_document_async env0 upload0 ''   '' world0)))
          = (if has_db env0 \<and> save_new_raises env0 = None
             then db world0 @ [\<lparr> id_pk = next_id (db world0), job_id = Some ''t1'',
                             filename = upload_filename upload0, query = DEFAULT_QUERY,
                             file_path = document_path env0, status = ''queued'',
                             analysis_text = None, created_at = clock env0,
                             updated_at = clock env0 \<rparr>]
             else db world0)"
    by blast
  then have a3: "map query (db (fst (snd (analyze_document_async env0 upload0 ''   '' world0))))
       = [''Analyze this financial document for investment insights'']"
    by (simp add: DEFAULT_QUERY_def env0_fields w0)
  from t env0_fields(1,2,4,6) validate_upload0 ne
  have a4: "status_code (snd (snd (analyze_document_async env0 upload0 ''   '' world0))) = 200"
    by blast
  from t env0_fields(1,2,4,6) validate_upload0 ne
  have "progress_state 10 ''Validation complete, loading analysis tools...''
          \<in> set (fst (run_crew_task env0 ''t1'' DEFAULT_QUERY (document_path env0)
                         (fst (snd (analyze_document_async env0 upload0 ''   '' world0)))))"
    by blast
  then have a5: "progress_state 10 ''Validation complete, loading analysis tools...''
       \<in> set (fst (run_crew_task env0 ''t1''
                      ''Analyze this financial document for investment insights''
                      ''data/financial_document_u1.pdf''
                      (fst (snd (analyze_document_async env0 upload0 ''   '' world0)))))"
    by (simp only: DEFAULT_QUERY_def env0_fields)
  from blank_spaces validate_upload0 e1 s1 s2 a1 a2 a3 a4 a5 show ?thesis by blast
qed

section \<open>Properties of the status endpoints\<close>

text \<open>
  Claim C7, amended. When Celery is available and the result backend can be read, a task
  id that is not blank and that the backend does not know is answered with status 200,
  state \<open>PENDING\<close> and progress 0. When the ledger is available and can be read, a job id
  that is not blank and has no ledger record is answered with 404. A blank id is answered
  with 400 and an unavailable component with 503.
\<close>

theorem unknown_ids:
  "(has_celery e \<and> \<not> blank tid \<and> AsyncResult_raises e = None \<and> b tid = None \<longrightarrow>
      task_status e b tid =
        JSONResponse
          [(''task_id'', VStr tid),
           (''state'', VStr ''PENDING''),
           (''status'', VStr ''Task is waiting in queue to be processed''),
           (''progress'', VNat 0),
           (''message'', VStr ''Your task is queued and will begin processing soon'')])
   \<and> (has_db e \<and> \<not> blank jid \<and> get_by_job_raises e = None \<and> get_by_job tbl jid = None \<longrightarrow>
      analysis_record e tbl jid = HTTPException 404 ''Analysis record not found'')
   \<and> (has_celery e \<and> blank tid \<longrightarrow> status_code (task_status e b tid) = 400)
   \<and> (has_db e \<and> blank jid \<longrightarrow> status_code (analysis_record e tbl jid) = 400)
   \<and> (\<not> has_celery e \<longrightarrow> status_code (task_status e b tid) = 503)
   \<and> (\<not> has_db e \<longrightarrow> status_code (analysis_record e tbl jid) = 503)"
  by (simp add: task_status_def analysis_record_def AsyncResult_def blank_def)

lemma not_blank_examples: "\<not> blank ''t9''" "\<not> blank ''j9''" "blank ''  ''"
  by (simp_all add: blank_def strip_def is_space_def)

theorem unknown_ids_witness:
  "\<not> blank ''t9'' \<and> \<not> blank ''j9''
   \<and> task_status env0 Map.empty ''t9'' =
        JSONResponse
          [(''task_id'', VStr ''t9''),
           (''state'', VStr ''PENDING''),
           (''status'', VStr ''Task is waiting in queue to be processed''),
           (''progress'', VNat 0),
           (''message'', VStr ''Your task is queued and will begin processing soon'')]
   \<and> status_code (task_status env0 Map.empty ''t9'') = 200
   \<and> analysis_record env0 [] ''j9'' = HTTPException 404 ''Analysis record not found''"
proof -
  have e: "has_celery env0" "has_db env0" "AsyncResult_raises env0 = None"
    "get_by_job_raises env0 = None"
    by (simp_all add: env0_def)
  have g: "get_by_job [] ''j9'' = None" by (simp add: get_by_job_def)
  from unknown_ids [of env0 "''t9''" Map.empty "''j9''" "[]"] e g not_blank_examples
  have t: "task_status env0 Map.empty ''t9'' =
        JSONResponse
          [(''task_id'', VStr ''t9''),
           (''state'', VStr ''PENDING''),
           (''status'', VStr ''Task is waiting in queue to be processed''),
           (''progress'', VNat 0),
           (''message'', VStr ''Your task is queued and will begin processing soon'')]"
    and a: "analysis_record env0 [] ''j9'' = HTTPException 404 ''Analysis record not found''"
    by simp_all
  from t have s: "status_code (task_status env0 Map.empty ''t9'') = 200" by simp
  from not_blank_examples(1,2) t s a show ?thesis by blast
qed

text \<open>
  Claim C7, as the spec states it: every task id that the result backend does not know is
  answered with 200 and \<open>PENDING\<close>, and every job id without a ledger record with 404. An
  id of two spaces is unknown to an empty backend and to an empty ledger, and both
  endpoints answer it with 400.
\<close>

theorem blank_id_counterexample:
  "Map.empty ''  '' = (None :: (string \<times> val) option)
   \<and> status_code (task_status env0 Map.empty ''  '') = 400
   \<and> get_by_job [] ''  '' = None
   \<and> status_code (analysis_record env0 [] ''  '') = 400"
proof -
  have e: "has_celery env0" "has_db env0" by (simp_all add: env0_def)
  show ?thesis
    using not_blank_examples(3)
    by (simp add: task_status_def analysis_record_def e blank_def get_by_job_def)
qed

section \<open>The submission and the ledger\<close>











end
